theory Spec2Isabelle
  imports Main "HOL-Library.Sublist"
begin

section \<open>Strings\<close>

text \<open>
  A JavaScript string is modelled by the bytes of its UTF-8 encoding (\<^typ>\<open>string\<close> is a
  list of 8-bit characters). The separator \<^verbatim>\<open>' '\<close> and the joiner \<^verbatim>\<open>'+'\<close> are single
  bytes that occur in UTF-8 only as themselves, and \<^verbatim>\<open>URLSearchParams\<close> serialises
  the UTF-8 bytes of its values, so the operations below act on bytes exactly as the
  source's act on the string.
\<close>

text \<open>\<^verbatim>\<open>s.split(c)\<close> for a one-character separator: never the empty array.\<close>

fun split :: "char \<Rightarrow> string \<Rightarrow> string list" where
  "split c [] = [[]]"
| "split c (x # xs) =
     (if x = c then [] # split c xs
      else (case split c xs of
              [] \<Rightarrow> [[x]]
            | w # ws \<Rightarrow> (x # w) # ws))"

text \<open>\<^verbatim>\<open>xs.join(sep)\<close>.\<close>

fun join :: "string \<Rightarrow> string list \<Rightarrow> string" where
  "join sep [] = []"
| "join sep [x] = x"
| "join sep (x # y # ys) = x @ sep @ join sep (y # ys)"

text \<open>
  \<^verbatim>\<open>s.trim()\<close> removes the code points of WhiteSpace and LineTerminator of ECMAScript
  from both ends; each is given here by its UTF-8 bytes.
\<close>

definition js_whitespace :: "string list" where
  "js_whitespace =
     [[CHR 0x09], [CHR 0x0A], [CHR 0x0B], [CHR 0x0C], [CHR 0x0D], [CHR 0x20],
      [CHR 0xC2, CHR 0xA0], [CHR 0xE1, CHR 0x9A, CHR 0x80],
      [CHR 0xE2, CHR 0x80, CHR 0x80], [CHR 0xE2, CHR 0x80, CHR 0x81],
      [CHR 0xE2, CHR 0x80, CHR 0x82], [CHR 0xE2, CHR 0x80, CHR 0x83],
      [CHR 0xE2, CHR 0x80, CHR 0x84], [CHR 0xE2, CHR 0x80, CHR 0x85],
      [CHR 0xE2, CHR 0x80, CHR 0x86], [CHR 0xE2, CHR 0x80, CHR 0x87],
      [CHR 0xE2, CHR 0x80, CHR 0x88], [CHR 0xE2, CHR 0x80, CHR 0x89],
      [CHR 0xE2, CHR 0x80, CHR 0x8A], [CHR 0xE2, CHR 0x80, CHR 0xA8],
      [CHR 0xE2, CHR 0x80, CHR 0xA9], [CHR 0xE2, CHR 0x80, CHR 0xAF],
      [CHR 0xE2, CHR 0x81, CHR 0x9F], [CHR 0xE3, CHR 0x80, CHR 0x80],
      [CHR 0xEF, CHR 0xBB, CHR 0xBF]]"

text \<open>The first white-space code point that \<open>s\<close> starts with, if any.\<close>

definition leading_whitespace :: "string \<Rightarrow> string option" where
  "leading_whitespace s = find (\<lambda>w. take (length w) s = w) js_whitespace"

function trimStart :: "string \<Rightarrow> string" where
  "trimStart s =
     (case leading_whitespace s of
        None \<Rightarrow> s
      | Some w \<Rightarrow> trimStart (drop (length w) s))"
  by pat_completeness auto

definition trailing_whitespace :: "string \<Rightarrow> string option" where
  "trailing_whitespace s =
     find (\<lambda>w. length w \<le> length s \<and> drop (length s - length w) s = w) js_whitespace"

function trimEnd :: "string \<Rightarrow> string" where
  "trimEnd s =
     (case trailing_whitespace s of
        None \<Rightarrow> s
      | Some w \<Rightarrow> trimEnd (take (length s - length w) s))"
  by pat_completeness auto

lemma js_whitespace_nonempty: "w \<in> set js_whitespace \<Longrightarrow> w \<noteq> []"
  by (auto simp: js_whitespace_def)

lemma leading_whitespace_shorter:
  assumes "leading_whitespace s = Some w"
  shows "length s - length w < length s"
proof -
  from assms have "w \<in> set js_whitespace" and w: "take (length w) s = w"
    by (auto simp: leading_whitespace_def find_Some_iff)
  then have "w \<noteq> []" by (simp add: js_whitespace_nonempty)
  with w have "s \<noteq> []" by auto
  with \<open>w \<noteq> []\<close> show ?thesis by simp
qed

lemma trailing_whitespace_shorter:
  assumes "trailing_whitespace s = Some w"
  shows "length s - length w < length s"
proof -
  from assms have "w \<in> set js_whitespace" and w: "length w \<le> length s"
    by (auto simp: trailing_whitespace_def find_Some_iff)
  then have "w \<noteq> []" by (simp add: js_whitespace_nonempty)
  with w show ?thesis by (cases s) auto
qed

termination trimStart
  by (relation "measure length") (simp_all add: leading_whitespace_shorter)

termination trimEnd
  by (relation "measure length") (simp_all add: trailing_whitespace_shorter)

definition trim :: "string \<Rightarrow> string" where
  "trim s = trimEnd (trimStart s)"

section \<open>\<^verbatim>\<open>URLSearchParams\<close>: the application/x-www-form-urlencoded serialiser\<close>

text \<open>
  \<^verbatim>\<open>URLSearchParams\<close> is the platform's, not the repository's; it is modelled after the
  URL Standard. \<^verbatim>\<open>toString()\<close> writes \<^verbatim>\<open>name=value\<close> pairs joined by \<^verbatim>\<open>&\<close>; in a name
  or value the ASCII letters and digits and \<^verbatim>\<open>* - . _\<close> stay, a space becomes \<^verbatim>\<open>+\<close>, and
  every other byte becomes \<^verbatim>\<open>%XX\<close> in upper-case hexadecimal. In particular the byte
  \<^verbatim>\<open>+\<close> becomes \<^verbatim>\<open>%2B\<close>.
\<close>

definition urlencoded_safe :: "string" where
  "urlencoded_safe =
     ''ABCDEFGHIJKLMNOPQRSTUVWXYZabcdefghijklmnopqrstuvwxyz0123456789*-._''"

definition hex_digit :: "nat \<Rightarrow> char" where
  "hex_digit n = ''0123456789ABCDEF'' ! (n mod 16)"

definition urlencode_byte :: "char \<Rightarrow> string" where
  "urlencode_byte c =
     (if c \<in> set urlencoded_safe then [c]
      else if c = CHR '' '' then ''+''
      else [CHR ''%'', hex_digit (of_char c div 16), hex_digit (of_char c mod 16)])"

definition urlencode :: "string \<Rightarrow> string" where
  "urlencode s = concat (map urlencode_byte s)"

text \<open>\<^verbatim>\<open>new URLSearchParams(init).toString()\<close> for the list of pairs of \<open>init\<close>.\<close>

definition URLSearchParams_toString :: "(string \<times> string) list \<Rightarrow> string" where
  "URLSearchParams_toString params =
     join ''&'' (map (\<lambda>(k, v). urlencode k @ ''='' @ urlencode v) params)"

text \<open>
  The reverse direction, which the receiver of the URL applies (the
  application/x-www-form-urlencoded parser of the URL Standard): split at \<^verbatim>\<open>&\<close>, skip
  empty pieces, split each piece at its first \<^verbatim>\<open>=\<close>, read \<^verbatim>\<open>+\<close> as a space and
  \<^verbatim>\<open>%XX\<close> as the byte XX. It is not code of the repository; it gives "decoding a
  parameter" its meaning.
\<close>

definition hex_value :: "char \<Rightarrow> nat option" where
  "hex_value c =
     (let n = (of_char c :: nat) in
      if 48 \<le> n \<and> n \<le> 57 then Some (n - 48)
      else if 65 \<le> n \<and> n \<le> 70 then Some (n - 55)
      else if 97 \<le> n \<and> n \<le> 102 then Some (n - 87)
      else None)"

fun percent_decode :: "string \<Rightarrow> string" where
  "percent_decode [] = []"
| "percent_decode [c] = [c]"
| "percent_decode [c, d] = [c, d]"
| "percent_decode (c # h # l # rest) =
     (if c = CHR ''%'' then
        (case (hex_value h, hex_value l) of
           (Some a, Some b) \<Rightarrow> char_of (16 * a + b) # percent_decode rest
         | _ \<Rightarrow> c # percent_decode (h # l # rest))
      else c # percent_decode (h # l # rest))"

definition urldecode :: "string \<Rightarrow> string" where
  "urldecode s = percent_decode (map (\<lambda>c. if c = CHR ''+'' then CHR '' '' else c) s)"

definition parse_pair :: "string \<Rightarrow> string \<times> string" where
  "parse_pair piece =
     (urldecode (takeWhile (\<lambda>c. c \<noteq> CHR ''='') piece),
      urldecode (drop 1 (dropWhile (\<lambda>c. c \<noteq> CHR ''='') piece)))"

definition parse_query :: "string \<Rightarrow> (string \<times> string) list" where
  "parse_query q = map parse_pair (filter (\<lambda>piece. piece \<noteq> []) (split CHR ''&'' q))"

section \<open>Configuration: the module constants of \<^verbatim>\<open>src/api/oauth.js\<close>\<close>

text \<open>
  \<^verbatim>\<open>process.env\<close> is a dictionary from names to strings; a variable that is not set
  reads as \<^verbatim>\<open>undefined\<close>, here \<open>None\<close>.
\<close>

type_synonym process_env = "string \<rightharpoonup> string"

definition API_ENDPOINT :: "string" where
  "API_ENDPOINT = ''https://discord.com/api/v10''"

definition CLIENT_ID :: "process_env \<Rightarrow> string option" where
  "CLIENT_ID env = env ''CLIENT_ID''"

definition CLIENT_SECRET :: "process_env \<Rightarrow> string option" where
  "CLIENT_SECRET env = env ''CLIENT_SECRET''"

definition REDIRECT_URI :: "process_env \<Rightarrow> string option" where
  "REDIRECT_URI env = env ''REDIRECT_URI''"

text \<open>\<^verbatim>\<open>x || d\<close> for a string or \<^verbatim>\<open>undefined\<close> \<open>x\<close>: the empty string is falsy.\<close>

definition or_default :: "string option \<Rightarrow> string \<Rightarrow> string" where
  "or_default x d = (case x of None \<Rightarrow> d | Some s \<Rightarrow> if s = [] then d else s)"

definition REQUIRED_SCOPES :: "process_env \<Rightarrow> string" where
  "REQUIRED_SCOPES env =
     trim (or_default (env ''REQUIRED_SCOPES'') ''identify applications.commands gdm.join'')"

text \<open>
  A string or \<^verbatim>\<open>undefined\<close> where a string is expected (a value of
  \<^verbatim>\<open>URLSearchParams\<close>' initialiser): \<^verbatim>\<open>undefined\<close> is written \<^verbatim>\<open>"undefined"\<close>.
\<close>

definition to_USVString :: "string option \<Rightarrow> string" where
  "to_USVString x = (case x of None \<Rightarrow> ''undefined'' | Some s \<Rightarrow> s)"

definition buildAuthorizeUrl :: "process_env \<Rightarrow> string" where
  "buildAuthorizeUrl env =
     (let params = URLSearchParams_toString
        [(''client_id'', to_USVString (CLIENT_ID env)),
         (''redirect_uri'', to_USVString (REDIRECT_URI env)),
         (''response_type'', ''code''),
         (''scope'', join ''+'' (split CHR '' '' (REQUIRED_SCOPES env)))]
      in ''https://discord.com/oauth2/authorize?'' @ params)"

section \<open>Values, requests, responses and outbound calls\<close>

text \<open>
  The values that reach the handler from outside are parsed JSON or query parameters.
  An object is an association list in key order. Of a number the handler only uses
  whether it is zero (its truthiness), so numbers are integers here.
\<close>

datatype jsval =
    JUndefined
  | JNull
  | JBool bool
  | JNum int
  | JStr string
  | JArr "jsval list"
  | JObj "(string \<times> jsval) list"

text \<open>Truthiness, as \<^verbatim>\<open>!x\<close>, \<^verbatim>\<open>x || y\<close> and \<^verbatim>\<open>filter(Boolean)\<close> use it.\<close>

fun truthy :: "jsval \<Rightarrow> bool" where
  "truthy JUndefined = False"
| "truthy JNull = False"
| "truthy (JBool b) = b"
| "truthy (JNum n) = (n \<noteq> 0)"
| "truthy (JStr s) = (s \<noteq> [])"
| "truthy (JArr xs) = True"
| "truthy (JObj kvs) = True"

text \<open>A module constant read from the environment, as a value.\<close>

definition of_env :: "string option \<Rightarrow> jsval" where
  "of_env x = (case x of None \<Rightarrow> JUndefined | Some s \<Rightarrow> JStr s)"

text \<open>
  What a \<^verbatim>\<open>catch\<close> block can receive: the error with which an axios call rejects (it
  carries the message of the transport failure), or a \<^verbatim>\<open>TypeError\<close> of the engine.
\<close>

datatype type_error =
    CannotReadProperty jsval string
  | NotAFunction string

datatype thrown =
    AxiosError string
  | TypeError type_error

text \<open>
  \<^verbatim>\<open>v.name\<close> for the two names the handler reads, \<^verbatim>\<open>scope\<close> and \<^verbatim>\<open>access_token\<close>:
  reading a property of \<^verbatim>\<open>null\<close> or \<^verbatim>\<open>undefined\<close> throws; a string, number, boolean or
  array has no property of either name.
\<close>

definition get_prop :: "jsval \<Rightarrow> string \<Rightarrow> thrown + jsval" where
  "get_prop v name =
     (case v of
        JUndefined \<Rightarrow> Inl (TypeError (CannotReadProperty v name))
      | JNull \<Rightarrow> Inl (TypeError (CannotReadProperty v name))
      | JObj kvs \<Rightarrow> Inr (case map_of kvs name of None \<Rightarrow> JUndefined | Some x \<Rightarrow> x)
      | _ \<Rightarrow> Inr JUndefined)"

text \<open>
  \<^verbatim>\<open>(v || '').split(' ')\<close>: a falsy \<open>v\<close> is replaced by the empty string; a truthy
  value that is not a string has no method \<^verbatim>\<open>split\<close>, and the call throws.
\<close>

definition or_empty_split :: "jsval \<Rightarrow> thrown + string list" where
  "or_empty_split v =
     (if \<not> truthy v then Inr (split CHR '' '' [])
      else (case v of
              JStr s \<Rightarrow> Inr (split CHR '' '' s)
            | _ \<Rightarrow> Inl (TypeError (NotAFunction ''split''))))"

text \<open>\<^verbatim>\<open>xs.filter(Boolean)\<close> on strings keeps the non-empty ones.\<close>

definition filter_Boolean :: "string list \<Rightarrow> string list" where
  "filter_Boolean xs = filter (\<lambda>x. x \<noteq> []) xs"

text \<open>
  The outbound calls. \<open>Post url data headers username password\<close> is
  \<^verbatim>\<open>axios.post(url, qs.stringify(data), {headers, auth: {username, password}})\<close>, and
  \<open>Get url token\<close> is \<^verbatim>\<open>axios.get(url)\<close> with the header
  \<^verbatim>\<open>Authorization: `Bearer ${token}`\<close>. The result is a failure of the transport with
  its message, or a response with its status and parsed data.
\<close>

datatype outbound =
    Post string "(string \<times> jsval) list" "(string \<times> string) list" "string option" "string option"
  | Get string jsval

datatype http_result =
    Failure string
  | Response int jsval

text \<open>
  The platform: what each outbound call meets, and the text the engine gives to the
  message of a \<^verbatim>\<open>TypeError\<close>.
\<close>

record platform =
  network :: "outbound \<Rightarrow> http_result"
  TypeError_message :: "type_error \<Rightarrow> string"

text \<open>\<^verbatim>\<open>error.message\<close> in a \<^verbatim>\<open>catch\<close> block.\<close>

definition message :: "platform \<Rightarrow> thrown \<Rightarrow> string" where
  "message pf e = (case e of AxiosError m \<Rightarrow> m | TypeError t \<Rightarrow> TypeError_message pf t)"

text \<open>The request: \<^verbatim>\<open>req.query\<close>, a dictionary; a missing key reads as \<^verbatim>\<open>undefined\<close>.\<close>

record request =
  query :: "string \<rightharpoonup> jsval"

definition query_param :: "request \<Rightarrow> string \<Rightarrow> jsval" where
  "query_param req name = (case query req name of None \<Rightarrow> JUndefined | Some v \<Rightarrow> v)"

text \<open>
  The response: status, the headers the handler sets itself, and the body. A page of
  the HTML variant is given by its title and the values interpolated into its template.
\<close>

datatype page =
    ConfigurationErrorPage
  | AuthorizationFailedPage string
  | MissingPermissionsPage string string
  | AuthorizationSuccessfulPage string
  | UnexpectedErrorPage string

datatype body =
    Empty
  | Json jsval
  | Html page

record response =
  statusCode :: int
  headers :: "(string \<times> string) list"
  body :: body

text \<open>\<^verbatim>\<open>res.status(n).json(v)\<close>, \<^verbatim>\<open>res.status(n).send(html)\<close> and
  \<^verbatim>\<open>res.writeHead(n, hs).end()\<close>.\<close>

definition json :: "int \<Rightarrow> jsval \<Rightarrow> response" where
  "json n v = \<lparr>statusCode = n, headers = [], body = Json v\<rparr>"

definition send :: "int \<Rightarrow> page \<Rightarrow> response" where
  "send n p = \<lparr>statusCode = n, headers = [], body = Html p\<rparr>"

definition writeHead_end :: "int \<Rightarrow> (string \<times> string) list \<Rightarrow> response" where
  "writeHead_end n hs = \<lparr>statusCode = n, headers = hs, body = Empty\<rparr>"

section \<open>The handler of \<^verbatim>\<open>src/api/oauth.js\<close>\<close>

text \<open>
  Writing to the console does not change the response and is left out. The handler
  returns the response together with the outbound calls it made, in order.
\<close>

text \<open>Lines 70 to 74: the granted and the required scopes, and the required ones that
  were not granted.\<close>

definition required_scopes :: "process_env \<Rightarrow> string list" where
  "required_scopes env = filter_Boolean (split CHR '' '' (REQUIRED_SCOPES env))"

definition missing_scopes :: "string list \<Rightarrow> string list \<Rightarrow> string list" where
  "missing_scopes required grantedScopes = filter (\<lambda>r. r \<notin> set grantedScopes) required"

definition granted_scopes :: "jsval \<Rightarrow> thrown + string list" where
  "granted_scopes tokenData =
     (case get_prop tokenData ''scope'' of
        Inl e \<Rightarrow> Inl e
      | Inr scope \<Rightarrow>
          (case or_empty_split scope of
             Inl e \<Rightarrow> Inl e
           | Inr parts \<Rightarrow> Inr (filter_Boolean parts)))"

text \<open>Lines 44 to 56: the call to the token endpoint.\<close>

definition token_call :: "process_env \<Rightarrow> jsval \<Rightarrow> outbound" where
  "token_call env code =
     Post (API_ENDPOINT @ ''/oauth2/token'')
       [(''grant_type'', JStr ''authorization_code''),
        (''code'', code),
        (''redirect_uri'', of_env (REDIRECT_URI env))]
       [(''Content-Type'', ''application/x-www-form-urlencoded'')]
       (CLIENT_ID env) (CLIENT_SECRET env)"

text \<open>
  Lines 88 to 99: the inner \<^verbatim>\<open>try\<close>. Anything thrown inside it is caught there and
  leaves \<open>user\<close> at \<^verbatim>\<open>null\<close>. The result is \<open>user\<close> and the calls made.
\<close>

definition fetch_user :: "platform \<Rightarrow> jsval \<Rightarrow> jsval \<times> outbound list" where
  "fetch_user pf tokenData =
     (case get_prop tokenData ''access_token'' of
        Inl e \<Rightarrow> (JNull, [])
      | Inr access_token \<Rightarrow>
          (let call = Get (API_ENDPOINT @ ''/users/@me'') access_token in
           case network pf call of
             Failure m \<Rightarrow> (JNull, [call])
           | Response st data \<Rightarrow> (if st = 200 then data else JNull, [call])))"

text \<open>Lines 43 to 106: the body of the outer \<^verbatim>\<open>try\<close>; \<open>Inl\<close> is what it throws.\<close>

definition exchange :: "platform \<Rightarrow> process_env \<Rightarrow> jsval \<Rightarrow> (thrown + response) \<times> outbound list" where
  "exchange pf env code =
     (let call = token_call env code in
      case network pf call of
        Failure m \<Rightarrow> (Inl (AxiosError m), [call])
      | Response st tokenData \<Rightarrow>
          if st \<noteq> 200 then
            (Inr (json 500 (JObj
               [(''error'', JStr ''token_exchange_failed''),
                (''status'', JNum st),
                (''details'', tokenData),
                (''authorize_url'', JStr (buildAuthorizeUrl env))])), [call])
          else
            (case granted_scopes tokenData of
               Inl e \<Rightarrow> (Inl e, [call])
             | Inr grantedScopes \<Rightarrow>
                 (let required = required_scopes env;
                      missing = missing_scopes required grantedScopes
                  in if length missing > 0 then
                       (Inr (json 400 (JObj
                          [(''error'', JStr ''missing_scopes''),
                           (''message'', JStr ''The token does not include required scopes.''),
                           (''required'', JArr (map JStr required)),
                           (''granted'', JArr (map JStr grantedScopes)),
                           (''missing'', JArr (map JStr missing)),
                           (''authorize_url'', JStr (buildAuthorizeUrl env))])), [call])
                     else
                       (let (user, calls) = fetch_user pf tokenData in
                        (Inr (json 200 (JObj
                           [(''ok'', JBool True),
                            (''token'', tokenData),
                            (''user'', user)])), call # calls)))))"

definition handler :: "platform \<Rightarrow> process_env \<Rightarrow> request \<Rightarrow> response \<times> outbound list" where
  "handler pf env req =
     (let code = query_param req ''code'' in
      if \<not> truthy code then
        (if \<not> truthy (of_env (CLIENT_ID env)) \<or> \<not> truthy (of_env (CLIENT_SECRET env))
            \<or> \<not> truthy (of_env (REDIRECT_URI env)) then
           (json 500 (JObj
              [(''error'', JStr ''server_misconfigured''),
               (''message'', JStr ''CLIENT_ID, CLIENT_SECRET and REDIRECT_URI must be set in environment variables.'')]),
            [])
         else
           (let authUrl = buildAuthorizeUrl env in
            (writeHead_end 302 [(''Location'', authUrl)], [])))
      else
        (case exchange pf env code of
           (Inr res, calls) \<Rightarrow> (res, calls)
         | (Inl error, calls) \<Rightarrow>
             (json 500 (JObj
                [(''error'', JStr ''unexpected_error''),
                 (''message'', JStr (message pf error))]), calls)))"

section \<open>The HTML variant (\<^verbatim>\<open>src/unnamed/part_000\<close>)\<close>

text \<open>
  This file declares the same constants and the same \<^verbatim>\<open>buildAuthorizeUrl\<close>, and one
  more constant. Its handler makes the same calls and answers with pages; what it
  writes to the log (through \<^verbatim>\<open>logSecurely\<close>) is left out. A read of \<^verbatim>\<open>userInfo.id\<close>
  that throws is caught by the inner \<^verbatim>\<open>try\<close> and changes nothing in the response.
\<close>

definition SUCCESS_REDIRECT_URL :: "process_env \<Rightarrow> string" where
  "SUCCESS_REDIRECT_URL env = or_default (env ''SUCCESS_REDIRECT_URL'') ''https://discord.com/app''"

definition exchange_part_000 :: "platform \<Rightarrow> process_env \<Rightarrow> jsval \<Rightarrow> (thrown + response) \<times> outbound list" where
  "exchange_part_000 pf env code =
     (let call = token_call env code in
      case network pf call of
        Failure m \<Rightarrow> (Inl (AxiosError m), [call])
      | Response st tokenData \<Rightarrow>
          if st \<noteq> 200 then
            (Inr (send 500 (AuthorizationFailedPage (buildAuthorizeUrl env))), [call])
          else
            (case granted_scopes tokenData of
               Inl e \<Rightarrow> (Inl e, [call])
             | Inr grantedScopes \<Rightarrow>
                 (let required = required_scopes env;
                      missing = missing_scopes required grantedScopes
                  in if length missing > 0 then
                       (Inr (send 400 (MissingPermissionsPage
                          (join [] (map (\<lambda>scope. ''<li>'' @ scope @ ''</li>'') missing))
                          (buildAuthorizeUrl env))), [call])
                     else
                       (let (userInfo, calls) = fetch_user pf tokenData in
                        (Inr (send 200 (AuthorizationSuccessfulPage (SUCCESS_REDIRECT_URL env))),
                         call # calls)))))"

definition handler_part_000 :: "platform \<Rightarrow> process_env \<Rightarrow> request \<Rightarrow> response \<times> outbound list" where
  "handler_part_000 pf env req =
     (let code = query_param req ''code'' in
      if \<not> truthy code then
        (if \<not> truthy (of_env (CLIENT_ID env)) \<or> \<not> truthy (of_env (CLIENT_SECRET env))
            \<or> \<not> truthy (of_env (REDIRECT_URI env)) then
           (send 500 ConfigurationErrorPage, [])
         else
           (let authUrl = buildAuthorizeUrl env in
            (writeHead_end 302 [(''Location'', authUrl)], [])))
      else
        (case exchange_part_000 pf env code of
           (Inr res, calls) \<Rightarrow> (res, calls)
         | (Inl error, calls) \<Rightarrow>
             (send 500 (UnexpectedErrorPage (buildAuthorizeUrl env)), calls)))"

section \<open>The plain exchange (\<^verbatim>\<open>src/unnamed/part_001\<close>)\<close>

text \<open>
  This handler calls axios without \<^verbatim>\<open>validateStatus\<close>, so the call rejects for every
  status outside 200 to 299 as it does for a failure of the transport, and the
  \<^verbatim>\<open>catch\<close> block answers both with the same body.
\<close>

definition handler_part_001 :: "platform \<Rightarrow> process_env \<Rightarrow> request \<Rightarrow> response \<times> outbound list" where
  "handler_part_001 pf env req =
     (let code = query_param req ''code'' in
      if \<not> truthy code then
        (json 400 (JObj [(''error'', JStr ''Missing code'')]), [])
      else
        (let call = token_call env code in
         case network pf call of
           Failure m \<Rightarrow>
             (json 500 (JObj [(''error'', JStr ''Error exchanging code for token'')]), [call])
         | Response st data \<Rightarrow>
             if 200 \<le> st \<and> st < 300 then (json 200 data, [call])
             else (json 500 (JObj [(''error'', JStr ''Error exchanging code for token'')]), [call])))"

section \<open>Inputs for the examples\<close>

definition example_env :: process_env where
  "example_env =
     [''CLIENT_ID'' \<mapsto> ''123'',
      ''CLIENT_SECRET'' \<mapsto> ''s3cret'',
      ''REDIRECT_URI'' \<mapsto> ''https://example.com/api/oauth'',
      ''REQUIRED_SCOPES'' \<mapsto> ''a b c'']"

text \<open>An environment in which only the credentials are set: the scopes are the default.\<close>

definition default_env :: process_env where
  "default_env =
     [''CLIENT_ID'' \<mapsto> ''123'',
      ''CLIENT_SECRET'' \<mapsto> ''s3cret'',
      ''REDIRECT_URI'' \<mapsto> ''https://example.com/api/oauth'']"

definition example_request :: request where
  "example_request = \<lparr>query = [''code'' \<mapsto> JStr ''abc'']\<rparr>"

text \<open>A provider that answers the token call with one result and the lookup of the
  user with another.\<close>

definition provider :: "http_result \<Rightarrow> http_result \<Rightarrow> platform" where
  "provider token_result user_result =
     \<lparr>network = (\<lambda>call. case call of
                           Post url d h u p \<Rightarrow> token_result
                         | Get url t \<Rightarrow> user_result),
      TypeError_message = (\<lambda>t. ''TypeError'')\<rparr>"

section \<open>Reading a response, and the words of the specification\<close>

text \<open>One pair as \<^verbatim>\<open>toString()\<close> writes it.\<close>

definition pair_string :: "string \<times> string \<Rightarrow> string" where
  "pair_string kv = urlencode (fst kv) @ ''='' @ urlencode (snd kv)"

text \<open>The query of a URL: what follows the first \<^verbatim>\<open>?\<close>.\<close>

definition query_string :: "string \<Rightarrow> string" where
  "query_string url = drop 1 (dropWhile (\<lambda>c. c \<noteq> CHR ''?'') url)"

text \<open>The \<^verbatim>\<open>error\<close> property of a JSON body, by which the handler names the outcome.\<close>

definition error_kind :: "response \<Rightarrow> jsval" where
  "error_kind res =
     (case body res of
        Json (JObj kvs) \<Rightarrow> (case map_of kvs ''error'' of None \<Rightarrow> JUndefined | Some v \<Rightarrow> v)
      | _ \<Rightarrow> JUndefined)"

text \<open>
  The specification speaks of splitting a scope string "on whitespace". This is that
  reading, with the ASCII white space as separators; it is compared with what the
  source does, which splits at the space only.
\<close>

definition ascii_whitespace :: "string" where
  "ascii_whitespace = [CHR 0x09, CHR 0x0A, CHR 0x0B, CHR 0x0C, CHR 0x0D, CHR 0x20]"

fun whitespace_split :: "string \<Rightarrow> string list" where
  "whitespace_split [] = [[]]"
| "whitespace_split (x # xs) =
     (if x \<in> set ascii_whitespace then [] # whitespace_split xs
      else (case whitespace_split xs of
              [] \<Rightarrow> [[x]]
            | w # ws \<Rightarrow> (x # w) # ws))"

definition whitespace_tokens :: "string \<Rightarrow> string list" where
  "whitespace_tokens s = filter_Boolean (whitespace_split s)"

section \<open>Splitting, joining and encoding\<close>

lemma split_not_Nil: "split c s \<noteq> []"
  by (induction s) (auto split: list.splits)

lemma split_no_sep: "c \<notin> set p \<Longrightarrow> split c p = [p]"
  by (induction p) auto

lemma split_append_sep: "c \<notin> set p \<Longrightarrow> split c (p @ c # rest) = p # split c rest"
  by (induction p) auto

lemma join_split: "join [d] (split c s) = map (\<lambda>x. if x = c then d else x) s"
proof (induction s)
  case Nil
  show ?case by simp
next
  case (Cons x xs)
  obtain w ws where w: "split c xs = w # ws"
    using split_not_Nil [of c xs] by (cases "split c xs") auto
  show ?case
  proof (cases "x = c")
    case True
    with Cons w show ?thesis by simp
  next
    case False
    with Cons w show ?thesis by (cases ws) auto
  qed
qed

lemma sublist_join: "r \<in> set xs \<Longrightarrow> sublist r (join sep xs)"
proof (induction sep xs rule: join.induct)
  case (1 sep)
  then show ?case by simp
next
  case (2 sep x)
  then show ?case by simp
next
  case (3 sep x y ys)
  show ?case
  proof (cases "r = x")
    case True
    then show ?thesis by simp
  next
    case False
    with 3 have "sublist r (join sep (y # ys))" by simp
    then obtain ps ss where "join sep (y # ys) = ps @ r @ ss"
      by (auto simp: sublist_def)
    then have "join sep (x # y # ys) = (x @ sep @ ps) @ r @ ss" by simp
    then show ?thesis unfolding sublist_def by blast
  qed
qed

lemma split_no_sep_in_parts: "r \<in> set (split c s) \<Longrightarrow> c \<notin> set r"
  by (induction s arbitrary: r) (auto split: if_splits list.splits)

lemma urlencode_append: "urlencode (a @ b) = urlencode a @ urlencode b"
  by (simp add: urlencode_def)

lemma sublist_urlencode: "sublist r s \<Longrightarrow> sublist (urlencode r) (urlencode s)"
proof -
  assume "sublist r s"
  then obtain ps ss where "s = ps @ r @ ss" by (auto simp: sublist_def)
  then have "urlencode s = urlencode ps @ urlencode r @ urlencode ss"
    by (simp add: urlencode_append)
  then show ?thesis unfolding sublist_def by blast
qed

lemma hex_digits_checked:
  "list_all (\<lambda>n. hex_value (hex_digit n) = Some n
                \<and> hex_digit n \<notin> set ''&=+%'') [0..<16]"
  by code_simp

lemma hex_digit_below_16:
  assumes "n < 16"
  shows "hex_value (hex_digit n) = Some n \<and> hex_digit n \<notin> set ''&=+%''"
proof -
  from assms have "n \<in> set [0..<16]" by simp
  with hex_digits_checked show ?thesis
    unfolding list_all_iff by blast
qed

lemma hex_value_hex_digit: "n < 16 \<Longrightarrow> hex_value (hex_digit n) = Some n"
  by (simp add: hex_digit_below_16)

lemma urlencoded_safe_chars:
  "c \<in> set urlencoded_safe \<Longrightarrow> c \<noteq> CHR ''%'' \<and> c \<noteq> CHR ''+'' \<and> c \<noteq> CHR ''&'' \<and> c \<noteq> CHR ''=''"
  by (auto simp: urlencoded_safe_def)

lemma hex_digit_chars:
  "hex_digit n \<noteq> CHR ''&'' \<and> hex_digit n \<noteq> CHR ''='' \<and> hex_digit n \<noteq> CHR ''+'' \<and> hex_digit n \<noteq> CHR ''%''"
proof -
  have "hex_digit n = hex_digit (n mod 16)" by (simp add: hex_digit_def)
  moreover have "hex_digit (n mod 16) \<notin> set ''&=+%''"
    using hex_digit_below_16 [of "n mod 16"] by simp
  ultimately show ?thesis by auto
qed

lemma percent_decode_other:
  "c \<noteq> CHR ''%'' \<Longrightarrow> percent_decode (c # xs) = c # percent_decode xs"
proof (cases xs)
  case Nil
  then show ?thesis by simp
next
  case (Cons h t)
  assume "c \<noteq> CHR ''%''"
  with Cons show ?thesis by (cases t) simp_all
qed

lemma percent_decode_escape:
  "hex_value h = Some a \<Longrightarrow> hex_value l = Some b \<Longrightarrow>
     percent_decode (CHR ''%'' # h # l # rest) = char_of (16 * a + b) # percent_decode rest"
  by simp

lemma char_of_div_mod: "char_of (16 * ((of_char c :: nat) div 16) + of_char c mod 16) = c"
  by simp

lemma urldecode_Nil: "urldecode [] = []"
  by (simp add: urldecode_def)

lemma urldecode_urlencode_byte: "urldecode (urlencode_byte c @ rest) = c # urldecode rest"
proof -
  consider (safe) "c \<in> set urlencoded_safe" | (space) "c \<notin> set urlencoded_safe" "c = CHR '' ''"
    | (other) "c \<notin> set urlencoded_safe" "c \<noteq> CHR '' ''" by blast
  then show ?thesis
  proof cases
    case safe
    then have "c \<noteq> CHR ''%''" "c \<noteq> CHR ''+''" using urlencoded_safe_chars by blast+
    with safe show ?thesis
      by (simp add: urlencode_byte_def urldecode_def percent_decode_other)
  next
    case space
    then show ?thesis
      by (simp add: urlencode_byte_def urldecode_def percent_decode_other)
  next
    case other
    let ?h = "hex_digit (of_char c div 16)" and ?l = "hex_digit (of_char c mod 16)"
    have "(of_char c :: nat) < 256" by simp
    then have lt: "(of_char c :: nat) div 16 < 16" by arith
    have h: "hex_value ?h = Some (of_char c div 16)"
      using lt by (rule hex_value_hex_digit)
    have l: "hex_value ?l = Some (of_char c mod 16)"
      by (rule hex_value_hex_digit) simp
    have "urldecode (urlencode_byte c @ rest) =
            percent_decode (CHR ''%'' # ?h # ?l # map (\<lambda>c. if c = CHR ''+'' then CHR '' '' else c) rest)"
      using other hex_digit_chars by (simp add: urlencode_byte_def urldecode_def)
    also have "\<dots> = char_of (16 * ((of_char c :: nat) div 16) + of_char c mod 16)
                    # percent_decode (map (\<lambda>c. if c = CHR ''+'' then CHR '' '' else c) rest)"
      using h l by (rule percent_decode_escape)
    finally show ?thesis by (simp only: char_of_div_mod urldecode_def)
  qed
qed

lemma urldecode_urlencode: "urldecode (urlencode s) = s"
proof (induction s)
  case Nil
  show ?case by (simp add: urlencode_def urldecode_Nil)
next
  case (Cons c s)
  have "urlencode (c # s) = urlencode_byte c @ urlencode s" by (simp add: urlencode_def)
  with Cons show ?case by (simp add: urldecode_urlencode_byte)
qed

lemma urlencode_byte_no_delimiter:
  "CHR ''&'' \<notin> set (urlencode_byte c) \<and> CHR ''='' \<notin> set (urlencode_byte c)"
proof -
  have "CHR ''&'' \<noteq> hex_digit n" "CHR ''='' \<noteq> hex_digit n" for n
    using hex_digit_chars [of n] by auto
  then show ?thesis
    using urlencoded_safe_chars [of c] by (auto simp: urlencode_byte_def)
qed

lemma urlencode_no_delimiter:
  "CHR ''&'' \<notin> set (urlencode s) \<and> CHR ''='' \<notin> set (urlencode s)"
  using urlencode_byte_no_delimiter by (auto simp: urlencode_def)


lemma parse_pair_pair_string: "parse_pair (pair_string kv) = kv"
proof -
  have k: "\<forall>c \<in> set (urlencode (fst kv)). c \<noteq> CHR ''=''"
    using urlencode_no_delimiter [of "fst kv"] by auto
  have "takeWhile (\<lambda>c. c \<noteq> CHR ''='') (pair_string kv) = urlencode (fst kv)"
    using k by (simp add: pair_string_def takeWhile_append2 del: takeWhile_append)
  moreover have "dropWhile (\<lambda>c. c \<noteq> CHR ''='') (pair_string kv) = CHR ''='' # urlencode (snd kv)"
    using k by (simp add: pair_string_def dropWhile_append2)
  ultimately show ?thesis
    by (simp add: parse_pair_def urldecode_urlencode)
qed

lemma pair_string_no_amp: "CHR ''&'' \<notin> set (pair_string kv)"
  using urlencode_no_delimiter by (simp add: pair_string_def)

lemma pair_string_not_Nil: "pair_string kv \<noteq> []"
  by (simp add: pair_string_def)

lemma parse_query_join: "parse_query (join ''&'' (map pair_string params)) = params"
proof (induction params rule: induct_list012)
  case 1
  show ?case by (simp add: parse_query_def)
next
  case (2 kv)
  show ?case
    by (simp add: parse_query_def split_no_sep pair_string_no_amp pair_string_not_Nil
        parse_pair_pair_string)
next
  case (3 kv kv' rest)
  have "join ''&'' (map pair_string (kv # kv' # rest)) =
          pair_string kv @ CHR ''&'' # join ''&'' (map pair_string (kv' # rest))"
    by simp
  then have "split CHR ''&'' (join ''&'' (map pair_string (kv # kv' # rest))) =
          pair_string kv # split CHR ''&'' (join ''&'' (map pair_string (kv' # rest)))"
    by (simp only: split_append_sep [OF pair_string_no_amp])
  with 3 show ?case
    by (simp add: parse_query_def pair_string_not_Nil parse_pair_pair_string)
qed

lemma URLSearchParams_toString_pairs:
  "URLSearchParams_toString params = join ''&'' (map pair_string params)"
proof -
  have "(\<lambda>(k, v). urlencode k @ ''='' @ urlencode v) = pair_string"
    by (auto simp: pair_string_def fun_eq_iff)
  then show ?thesis by (simp only: URLSearchParams_toString_def)
qed

lemma parse_query_toString: "parse_query (URLSearchParams_toString params) = params"
  by (simp only: URLSearchParams_toString_pairs parse_query_join)

section \<open>The paths through the handler\<close>

lemma handler_exchanged:
  assumes "truthy (query_param req ''code'')"
  shows "handler pf env req =
     (case exchange pf env (query_param req ''code'') of
        (Inr res, calls) \<Rightarrow> (res, calls)
      | (Inl error, calls) \<Rightarrow>
          (json 500 (JObj
             [(''error'', JStr ''unexpected_error''),
              (''message'', JStr (message pf error))]), calls))"
  using assms by (simp add: handler_def Let_def)

lemma exchange_failure:
  assumes "network pf (token_call env code) = Failure m"
  shows "exchange pf env code = (Inl (AxiosError m), [token_call env code])"
  using assms by (simp add: exchange_def Let_def)

lemma exchange_not_200:
  assumes "network pf (token_call env code) = Response st tokenData" and "st \<noteq> 200"
  shows "exchange pf env code =
           (Inr (json 500 (JObj
               [(''error'', JStr ''token_exchange_failed''),
                (''status'', JNum st),
                (''details'', tokenData),
                (''authorize_url'', JStr (buildAuthorizeUrl env))])), [token_call env code])"
  using assms by (simp add: exchange_def Let_def)

lemma exchange_200:
  assumes "network pf (token_call env code) = Response 200 tokenData"
  shows "exchange pf env code =
     (case granted_scopes tokenData of
        Inl e \<Rightarrow> (Inl e, [token_call env code])
      | Inr grantedScopes \<Rightarrow>
          (if missing_scopes (required_scopes env) grantedScopes \<noteq> [] then
             (Inr (json 400 (JObj
                [(''error'', JStr ''missing_scopes''),
                 (''message'', JStr ''The token does not include required scopes.''),
                 (''required'', JArr (map JStr (required_scopes env))),
                 (''granted'', JArr (map JStr grantedScopes)),
                 (''missing'', JArr (map JStr (missing_scopes (required_scopes env) grantedScopes))),
                 (''authorize_url'', JStr (buildAuthorizeUrl env))])), [token_call env code])
           else
             (Inr (json 200 (JObj
                [(''ok'', JBool True),
                 (''token'', tokenData),
                 (''user'', fst (fetch_user pf tokenData))])),
              token_call env code # snd (fetch_user pf tokenData))))"
  using assms by (simp add: exchange_def Let_def case_prod_unfold split: sum.splits)

lemma error_kind_json: "error_kind (json n (JObj kvs)) = (case map_of kvs ''error'' of None \<Rightarrow> JUndefined | Some v \<Rightarrow> v)"
  by (simp add: error_kind_def json_def)

lemma statusCode_json: "statusCode (json n v) = n"
  by (simp add: json_def)

lemma fetch_user_failed:
  assumes "get_prop tokenData ''access_token'' = Inr access_token"
    and "network pf (Get (API_ENDPOINT @ ''/users/@me'') access_token) = Failure m
       \<or> (network pf (Get (API_ENDPOINT @ ''/users/@me'') access_token) = Response st data \<and> st \<noteq> 200)"
  shows "fetch_user pf tokenData = (JNull, [Get (API_ENDPOINT @ ''/users/@me'') access_token])"
  using assms by (auto simp: fetch_user_def Let_def)

text \<open>
  Reading the granted scopes throws exactly when the token data is \<^verbatim>\<open>null\<close> or
  \<^verbatim>\<open>undefined\<close>, or its \<^verbatim>\<open>scope\<close> is truthy and not a string. For every other
  token data the scopes are read.
\<close>

lemma granted_scopes_throws:
  "(\<exists>e. granted_scopes tokenData = Inl e) \<longleftrightarrow>
     tokenData = JUndefined \<or> tokenData = JNull
     \<or> (\<exists>kvs v. tokenData = JObj kvs \<and> map_of kvs ''scope'' = Some v \<and> truthy v
                 \<and> (\<forall>s. v \<noteq> JStr s))"
  by (cases tokenData)
     (auto simp: granted_scopes_def get_prop_def or_empty_split_def
           split: option.splits jsval.splits sum.splits)

section \<open>Scope validation\<close>

text \<open>
  Claim C1. After a token exchange that the provider answers with status 200 and with
  data whose scopes can be read (see \<open>granted_scopes_throws\<close>), the handler takes
  as missing the required scopes that are not among the granted ones, in the order of
  the required list. If there is one, the response is the 400 \<^verbatim>\<open>missing_scopes\<close>
  body with the required, the granted and the missing scopes and the authorize URL,
  and the token call was the only outbound call. With \<^verbatim>\<open>a b c\<close> required and
  \<^verbatim>\<open>a b\<close> granted the missing list is \<^verbatim>\<open>[c]\<close> (the example below).
\<close>

theorem missing_scopes_response:
  assumes code: "truthy (query_param req ''code'')"
    and ok: "network pf (token_call env (query_param req ''code'')) = Response 200 tokenData"
    and granted: "granted_scopes tokenData = Inr grantedScopes"
    and missing: "missing = filter (\<lambda>r. r \<notin> set grantedScopes) (required_scopes env)"
    and nonempty: "missing \<noteq> []"
  shows "handler pf env req =
           (json 400 (JObj
              [(''error'', JStr ''missing_scopes''),
               (''message'', JStr ''The token does not include required scopes.''),
               (''required'', JArr (map JStr (required_scopes env))),
               (''granted'', JArr (map JStr grantedScopes)),
               (''missing'', JArr (map JStr missing)),
               (''authorize_url'', JStr (buildAuthorizeUrl env))]),
            [token_call env (query_param req ''code'')])
         \<and> set missing = set (required_scopes env) - set grantedScopes
         \<and> subseq missing (required_scopes env)"
proof -
  have m: "missing_scopes (required_scopes env) grantedScopes = missing"
    by (simp add: missing missing_scopes_def)
  have "handler pf env req =
           (json 400 (JObj
              [(''error'', JStr ''missing_scopes''),
               (''message'', JStr ''The token does not include required scopes.''),
               (''required'', JArr (map JStr (required_scopes env))),
               (''granted'', JArr (map JStr grantedScopes)),
               (''missing'', JArr (map JStr missing)),
               (''authorize_url'', JStr (buildAuthorizeUrl env))]),
            [token_call env (query_param req ''code'')])"
    using granted nonempty
    by (simp add: handler_exchanged [OF code] exchange_200 [OF ok] m)
  moreover have "set missing = set (required_scopes env) - set grantedScopes"
    by (auto simp: missing)
  moreover have "subseq missing (required_scopes env)"
    by (simp add: missing)
  ultimately show ?thesis by simp
qed

theorem missing_scopes_response_witness:
  "handler (provider (Response 200 (JObj [(''access_token'', JStr ''t''), (''scope'', JStr ''a b'')]))
                     (Failure []))
     example_env example_request =
   (json 400 (JObj
      [(''error'', JStr ''missing_scopes''),
       (''message'', JStr ''The token does not include required scopes.''),
       (''required'', JArr [JStr ''a'', JStr ''b'', JStr ''c'']),
       (''granted'', JArr [JStr ''a'', JStr ''b'']),
       (''missing'', JArr [JStr ''c'']),
       (''authorize_url'', JStr ''https://discord.com/oauth2/authorize?client_id=123&redirect_uri=https%3A%2F%2Fexample.com%2Fapi%2Foauth&response_type=code&scope=a%2Bb%2Bc'')]),
    [token_call example_env (JStr ''abc'')])"
proof -
  let ?data = "JObj [(''access_token'', JStr ''t''), (''scope'', JStr ''a b'')]"
  let ?pf = "provider (Response 200 ?data) (Failure [])"
  have code: "truthy (query_param example_request ''code'')"
    by (simp add: example_request_def query_param_def)
  have ok: "network ?pf (token_call example_env (query_param example_request ''code'')) = Response 200 ?data"
    by (simp add: provider_def token_call_def)
  have granted: "granted_scopes ?data = Inr [''a'', ''b'']"
    by (simp add: granted_scopes_def get_prop_def or_empty_split_def filter_Boolean_def)
  have req: "required_scopes example_env = [''a'', ''b'', ''c'']"
    by code_simp
  have url: "buildAuthorizeUrl example_env = ''https://discord.com/oauth2/authorize?client_id=123&redirect_uri=https%3A%2F%2Fexample.com%2Fapi%2Foauth&response_type=code&scope=a%2Bb%2Bc''"
    by code_simp
  have missing: "[''c''] = filter (\<lambda>r. r \<notin> set [''a'', ''b'']) (required_scopes example_env)"
    by (simp add: req)
  from missing_scopes_response [OF code ok granted missing]
  show ?thesis
    by (simp add: req url example_request_def query_param_def)
qed

section \<open>The token exchange\<close>

text \<open>
  Claim C2, as the code has it. The handler passes \<^verbatim>\<open>validateStatus: () => true\<close> and
  compares the status with 200. For every status other than 200 the response is the
  500 \<^verbatim>\<open>token_exchange_failed\<close> body with the status and the data of the provider
  and the authorize URL. A failure of the transport makes the call reject; the outer
  \<^verbatim>\<open>catch\<close> answers it with the 500 \<^verbatim>\<open>unexpected_error\<close> body. With status 200
  the response is not \<^verbatim>\<open>token_exchange_failed\<close>: the flow goes on to the scopes.
  In each case the handler returns a response.
\<close>

theorem exchange_failed_response:
  assumes code: "truthy (query_param req ''code'')"
    and call: "call = token_call env (query_param req ''code'')"
  shows "(network pf call = Response st data \<and> st \<noteq> 200 \<longrightarrow>
            handler pf env req =
              (json 500 (JObj
                 [(''error'', JStr ''token_exchange_failed''),
                  (''status'', JNum st),
                  (''details'', data),
                  (''authorize_url'', JStr (buildAuthorizeUrl env))]), [call]))
       \<and> (network pf call = Failure m \<longrightarrow>
            statusCode (fst (handler pf env req)) = 500
            \<and> error_kind (fst (handler pf env req)) = JStr ''unexpected_error''
            \<and> snd (handler pf env req) = [call])
       \<and> (network pf call = Response 200 data \<longrightarrow>
            error_kind (fst (handler pf env req)) \<noteq> JStr ''token_exchange_failed'')"
proof (intro conjI impI)
  assume "network pf call = Response st data \<and> st \<noteq> 200"
  then show "handler pf env req =
              (json 500 (JObj
                 [(''error'', JStr ''token_exchange_failed''),
                  (''status'', JNum st),
                  (''details'', data),
                  (''authorize_url'', JStr (buildAuthorizeUrl env))]), [call])"
    unfolding call by (simp add: handler_exchanged [OF code] exchange_not_200)
next
  assume f: "network pf call = Failure m"
  then have h: "handler pf env req =
      (json 500 (JObj [(''error'', JStr ''unexpected_error''),
                       (''message'', JStr (message pf (AxiosError m)))]), [call])"
    unfolding call by (simp add: handler_exchanged [OF code] exchange_failure)
  show "statusCode (fst (handler pf env req)) = 500" by (simp add: h statusCode_json)
  show "error_kind (fst (handler pf env req)) = JStr ''unexpected_error''"
    by (simp add: h error_kind_json)
  show "snd (handler pf env req) = [call]" by (simp add: h)
next
  assume "network pf call = Response 200 data"
  then show "error_kind (fst (handler pf env req)) \<noteq> JStr ''token_exchange_failed''"
    unfolding call
    by (simp add: handler_exchanged [OF code] exchange_200 error_kind_json split: sum.splits)
qed

text \<open>
  Claim C2 as stated fails twice: a failure of the transport is answered with
  \<^verbatim>\<open>unexpected_error\<close>, whose body has no authorize URL, and the success status 201
  is answered with \<^verbatim>\<open>token_exchange_failed\<close>.
\<close>

theorem exchange_failed_counterexample:
  "handler (provider (Failure ''connect ECONNREFUSED'') (Failure [])) example_env example_request =
     (json 500 (JObj
        [(''error'', JStr ''unexpected_error''),
         (''message'', JStr ''connect ECONNREFUSED'')]),
      [token_call example_env (JStr ''abc'')])
   \<and> error_kind (fst (handler (provider (Response 201 (JObj [(''scope'', JStr ''a b c'')])) (Failure []))
                           example_env example_request)) = JStr ''token_exchange_failed''"
proof -
  have code: "truthy (query_param example_request ''code'')"
    by (simp add: example_request_def query_param_def)
  have q: "query_param example_request ''code'' = JStr ''abc''"
    by (simp add: example_request_def query_param_def)
  have f: "network (provider (Failure ''connect ECONNREFUSED'') (Failure []))
             (token_call example_env (JStr ''abc'')) = Failure ''connect ECONNREFUSED''"
    by (simp add: provider_def token_call_def)
  have r: "network (provider (Response 201 (JObj [(''scope'', JStr ''a b c'')])) (Failure []))
             (token_call example_env (JStr ''abc'')) = Response 201 (JObj [(''scope'', JStr ''a b c'')])"
    by (simp add: provider_def token_call_def)
  show ?thesis
    by (simp add: handler_exchanged [OF code] q exchange_failure [OF f] exchange_not_200 [OF r]
        message_def error_kind_json)
qed

theorem exchange_failed_response_witness:
  "handler (provider (Response 401 (JObj [(''error'', JStr ''invalid_client'')])) (Failure []))
     example_env example_request =
   (json 500 (JObj
      [(''error'', JStr ''token_exchange_failed''),
       (''status'', JNum 401),
       (''details'', JObj [(''error'', JStr ''invalid_client'')]),
       (''authorize_url'', JStr (buildAuthorizeUrl example_env))]),
    [token_call example_env (JStr ''abc'')])
   \<and> statusCode (fst (handler (provider (Failure ''connect ECONNREFUSED'') (Failure []))
                             example_env example_request)) = 500
   \<and> error_kind (fst (handler (provider (Response 200 (JObj [(''scope'', JStr ''a b c'')])) (Failure []))
                             example_env example_request)) \<noteq> JStr ''token_exchange_failed''"
proof -
  have code: "truthy (query_param example_request ''code'')"
    by (simp add: example_request_def query_param_def)
  have q: "query_param example_request ''code'' = JStr ''abc''"
    by (simp add: example_request_def query_param_def)
  have n: "network (provider r (Failure [])) (token_call example_env (JStr ''abc'')) = r" for r
    by (simp add: provider_def token_call_def)
  note t = exchange_failed_response [OF code q [symmetric, THEN arg_cong [where f = "token_call example_env"]]]
  show ?thesis
    using t [of "provider (Response 401 (JObj [(''error'', JStr ''invalid_client'')])) (Failure [])"
               401 "JObj [(''error'', JStr ''invalid_client'')]" "[]"]
          t [of "provider (Failure ''connect ECONNREFUSED'') (Failure [])"
               0 JNull "''connect ECONNREFUSED''"]
          t [of "provider (Response 200 (JObj [(''scope'', JStr ''a b c'')])) (Failure [])"
               0 "JObj [(''scope'', JStr ''a b c'')]" "[]"]
    by (simp add: n)
qed

section \<open>Requests without a code\<close>

text \<open>
  Claim C3. When the request has no \<^verbatim>\<open>code\<close> (or an empty one: the test is
  \<^verbatim>\<open>!code\<close>) and the client id, the client secret or the redirect URI is not set or
  is empty, the response is the 500 \<^verbatim>\<open>server_misconfigured\<close> body and the handler
  makes no outbound call.
\<close>

theorem configuration_error:
  assumes "\<not> truthy (query_param req ''code'')"
    and "CLIENT_ID env = None \<or> CLIENT_ID env = Some []
       \<or> CLIENT_SECRET env = None \<or> CLIENT_SECRET env = Some []
       \<or> REDIRECT_URI env = None \<or> REDIRECT_URI env = Some []"
  shows "handler pf env req =
           (json 500 (JObj
              [(''error'', JStr ''server_misconfigured''),
               (''message'', JStr ''CLIENT_ID, CLIENT_SECRET and REDIRECT_URI must be set in environment variables.'')]),
            [])"
  using assms by (auto simp: handler_def Let_def of_env_def)

theorem configuration_error_witness:
  "handler (provider (Response 200 JNull) (Response 200 JNull))
     [''CLIENT_ID'' \<mapsto> ''123'', ''REDIRECT_URI'' \<mapsto> ''https://example.com/api/oauth'']
     \<lparr>query = Map.empty\<rparr> =
   (json 500 (JObj
      [(''error'', JStr ''server_misconfigured''),
       (''message'', JStr ''CLIENT_ID, CLIENT_SECRET and REDIRECT_URI must be set in environment variables.'')]),
    [])"
  by (rule configuration_error) (simp_all add: query_param_def CLIENT_SECRET_def)

section \<open>The lookup of the user\<close>

text \<open>
  Claim C4. When the exchange was answered with status 200 and every required scope
  was granted, a lookup of the user that fails in the transport, or that is answered
  with a status other than 200 (every status that is not a success is one), leaves the
  response the 200 body with \<^verbatim>\<open>ok\<close>, the token data and \<^verbatim>\<open>user: null\<close>.
\<close>

theorem identity_lookup_best_effort:
  assumes code: "truthy (query_param req ''code'')"
    and ok: "network pf (token_call env (query_param req ''code'')) = Response 200 tokenData"
    and granted: "granted_scopes tokenData = Inr grantedScopes"
    and all_granted: "set (required_scopes env) \<subseteq> set grantedScopes"
    and token: "get_prop tokenData ''access_token'' = Inr access_token"
    and lookup: "network pf (Get (API_ENDPOINT @ ''/users/@me'') access_token) = Failure m
       \<or> (network pf (Get (API_ENDPOINT @ ''/users/@me'') access_token) = Response st data \<and> st \<noteq> 200)"
  shows "handler pf env req =
           (json 200 (JObj [(''ok'', JBool True), (''token'', tokenData), (''user'', JNull)]),
            [token_call env (query_param req ''code''),
             Get (API_ENDPOINT @ ''/users/@me'') access_token])"
proof -
  have "missing_scopes (required_scopes env) grantedScopes = []"
    using all_granted by (auto simp: missing_scopes_def filter_empty_conv)
  then show ?thesis
    using granted fetch_user_failed [OF token lookup]
    by (simp add: handler_exchanged [OF code] exchange_200 [OF ok])
qed

theorem identity_lookup_best_effort_witness:
  "handler (provider (Response 200 (JObj [(''access_token'', JStr ''t''), (''scope'', JStr ''c b a'')]))
                     (Response 401 (JObj [(''message'', JStr ''401: Unauthorized'')])))
     example_env example_request =
   (json 200 (JObj [(''ok'', JBool True),
                    (''token'', JObj [(''access_token'', JStr ''t''), (''scope'', JStr ''c b a'')]),
                    (''user'', JNull)]),
    [token_call example_env (JStr ''abc''), Get (API_ENDPOINT @ ''/users/@me'') (JStr ''t'')])
   \<and>
   handler (provider (Response 200 (JObj [(''access_token'', JStr ''t''), (''scope'', JStr ''c b a'')]))
                     (Failure ''socket hang up''))
     example_env example_request =
   (json 200 (JObj [(''ok'', JBool True),
                    (''token'', JObj [(''access_token'', JStr ''t''), (''scope'', JStr ''c b a'')]),
                    (''user'', JNull)]),
    [token_call example_env (JStr ''abc''), Get (API_ENDPOINT @ ''/users/@me'') (JStr ''t'')])"
proof -
  let ?data = "JObj [(''access_token'', JStr ''t''), (''scope'', JStr ''c b a'')]"
  have code: "truthy (query_param example_request ''code'')"
    by (simp add: example_request_def query_param_def)
  have q: "query_param example_request ''code'' = JStr ''abc''"
    by (simp add: example_request_def query_param_def)
  have ok: "network (provider (Response 200 ?data) r)
              (token_call example_env (query_param example_request ''code'')) = Response 200 ?data" for r
    by (simp add: provider_def token_call_def)
  have granted: "granted_scopes ?data = Inr [''c'', ''b'', ''a'']"
    by (simp add: granted_scopes_def get_prop_def or_empty_split_def filter_Boolean_def)
  have req: "required_scopes example_env = [''a'', ''b'', ''c'']"
    by code_simp
  have all_granted: "set (required_scopes example_env) \<subseteq> set [''c'', ''b'', ''a'']"
    by (simp add: req)
  have token: "get_prop ?data ''access_token'' = Inr (JStr ''t'')"
    by (simp add: get_prop_def)
  have l1: "network (provider (Response 200 ?data) (Response 401 (JObj [(''message'', JStr ''401: Unauthorized'')])))
              (Get (API_ENDPOINT @ ''/users/@me'') (JStr ''t'')) = Failure []
          \<or> (network (provider (Response 200 ?data) (Response 401 (JObj [(''message'', JStr ''401: Unauthorized'')])))
              (Get (API_ENDPOINT @ ''/users/@me'') (JStr ''t'')) = Response 401 (JObj [(''message'', JStr ''401: Unauthorized'')])
             \<and> (401::int) \<noteq> 200)"
    by (simp add: provider_def)
  have l2: "network (provider (Response 200 ?data) (Failure ''socket hang up''))
              (Get (API_ENDPOINT @ ''/users/@me'') (JStr ''t'')) = Failure ''socket hang up''
          \<or> (network (provider (Response 200 ?data) (Failure ''socket hang up''))
              (Get (API_ENDPOINT @ ''/users/@me'') (JStr ''t'')) = Response 0 JNull \<and> (0::int) \<noteq> 200)"
    by (simp add: provider_def)
  show ?thesis
    using identity_lookup_best_effort [OF code ok granted all_granted token l1]
          identity_lookup_best_effort [OF code ok granted all_granted token l2]
    by (simp only: q)
qed

section \<open>Unexpected errors\<close>

text \<open>
  What the outer \<^verbatim>\<open>catch\<close> answers in each of the two files: \<^verbatim>\<open>src/api/oauth.js\<close>
  puts \<^verbatim>\<open>error.message\<close> into the body; the HTML variant answers with a page that
  holds the authorize URL and nothing of the error.
\<close>

lemma handler_unexpected_error:
  assumes "truthy (query_param req ''code'')"
    and "exchange pf env (query_param req ''code'') = (Inl e, calls)"
  shows "handler pf env req =
           (json 500 (JObj [(''error'', JStr ''unexpected_error''),
                            (''message'', JStr (message pf e))]), calls)"
  using assms by (simp add: handler_exchanged)

lemma handler_transport_failure:
  assumes "truthy (query_param req ''code'')"
    and "network pf (token_call env (query_param req ''code'')) = Failure m"
  shows "handler pf env req =
           (json 500 (JObj [(''error'', JStr ''unexpected_error''), (''message'', JStr m)]),
            [token_call env (query_param req ''code'')])"
  using assms by (simp add: handler_exchanged exchange_failure message_def)

lemma handler_null_token_data:
  assumes "truthy (query_param req ''code'')"
    and "network pf (token_call env (query_param req ''code'')) = Response 200 JNull"
  shows "handler pf env req =
           (json 500 (JObj [(''error'', JStr ''unexpected_error''),
                            (''message'', JStr (TypeError_message pf (CannotReadProperty JNull ''scope'')))]),
            [token_call env (query_param req ''code'')])"
  using assms
  by (simp add: handler_exchanged exchange_200 granted_scopes_def get_prop_def message_def)

lemma handler_part_000_unexpected_error:
  assumes "truthy (query_param req ''code'')"
    and "exchange_part_000 pf env (query_param req ''code'') = (Inl e, calls)"
  shows "handler_part_000 pf env req =
           (send 500 (UnexpectedErrorPage (buildAuthorizeUrl env)), calls)"
  using assms by (simp add: handler_part_000_def Let_def)

lemma handler_part_000_transport_failure:
  assumes "truthy (query_param req ''code'')"
    and "network pf (token_call env (query_param req ''code'')) = Failure m"
  shows "handler_part_000 pf env req =
           (send 500 (UnexpectedErrorPage (buildAuthorizeUrl env)),
            [token_call env (query_param req ''code'')])"
  using assms by (simp add: handler_part_000_def exchange_part_000_def Let_def)

text \<open>
  Claim C5, evaluated where it fails. The token call is rejected by the transport. The
  body that \<^verbatim>\<open>src/api/oauth.js\<close> answers with holds the message of the error as it
  is and no authorize URL, and two runs that differ only in that message have
  different bodies. (In the HTML variant the page is the same for every error:
  \<open>handler_part_000_unexpected_error\<close>.)
\<close>

theorem unexpected_error_leaks_message:
  "handler (provider (Failure ''connect ECONNREFUSED 10.0.0.1:443'') (Failure [])) example_env example_request =
     (json 500 (JObj
        [(''error'', JStr ''unexpected_error''),
         (''message'', JStr ''connect ECONNREFUSED 10.0.0.1:443'')]),
      [token_call example_env (JStr ''abc'')])
   \<and> body (fst (handler (provider (Failure ''getaddrinfo ENOTFOUND discord.com'') (Failure []))
                     example_env example_request))
     \<noteq> body (fst (handler (provider (Failure ''connect ECONNREFUSED 10.0.0.1:443'') (Failure []))
                     example_env example_request))"
proof -
  have code: "truthy (query_param example_request ''code'')"
    by (simp add: example_request_def query_param_def)
  have q: "query_param example_request ''code'' = JStr ''abc''"
    by (simp add: example_request_def query_param_def)
  have f: "network (provider (Failure m) (Failure [])) (token_call example_env (JStr ''abc'')) = Failure m" for m
    by (simp add: provider_def token_call_def)
  show ?thesis
    by (simp add: handler_exchanged [OF code] q exchange_failure [OF f] message_def json_def)
qed

text \<open>The response of that run: status 500, and the message of the error in the body.\<close>

theorem unexpected_error_leaks_message_witness:
  "statusCode (fst (handler (provider (Failure ''connect ECONNREFUSED 10.0.0.1:443'') (Failure []))
                      example_env example_request)) = 500
   \<and> body (fst (handler (provider (Failure ''connect ECONNREFUSED 10.0.0.1:443'') (Failure []))
                      example_env example_request)) =
       Json (JObj [(''error'', JStr ''unexpected_error''),
                   (''message'', JStr ''connect ECONNREFUSED 10.0.0.1:443'')])"
  using unexpected_error_leaks_message by (simp add: json_def)

section \<open>The authorize URL\<close>

lemma query_string_buildAuthorizeUrl:
  "query_string (buildAuthorizeUrl env) =
     URLSearchParams_toString
        [(''client_id'', to_USVString (CLIENT_ID env)),
         (''redirect_uri'', to_USVString (REDIRECT_URI env)),
         (''response_type'', ''code''),
         (''scope'', join ''+'' (split CHR '' '' (REQUIRED_SCOPES env)))]"
  by (simp add: query_string_def buildAuthorizeUrl_def Let_def)

lemma parse_query_buildAuthorizeUrl:
  "parse_query (query_string (buildAuthorizeUrl env)) =
        [(''client_id'', to_USVString (CLIENT_ID env)),
         (''redirect_uri'', to_USVString (REDIRECT_URI env)),
         (''response_type'', ''code''),
         (''scope'', join ''+'' (split CHR '' '' (REQUIRED_SCOPES env)))]"
  by (simp only: query_string_buildAuthorizeUrl parse_query_toString)

lemma scope_parameter:
  "map_of (parse_query (query_string (buildAuthorizeUrl env))) ''scope'' =
     Some (map (\<lambda>c. if c = CHR '' '' then CHR ''+'' else c) (REQUIRED_SCOPES env))"
  by (simp add: parse_query_buildAuthorizeUrl join_split)

lemma REQUIRED_SCOPES_default: "REQUIRED_SCOPES default_env = ''identify applications.commands gdm.join''"
  by code_simp

lemma buildAuthorizeUrl_parts:
  "buildAuthorizeUrl env =
     ''https://discord.com/oauth2/authorize?client_id='' @ urlencode (to_USVString (CLIENT_ID env))
     @ ''&redirect_uri='' @ urlencode (to_USVString (REDIRECT_URI env))
     @ ''&response_type=code&scope='' @ urlencode (join ''+'' (split CHR '' '' (REQUIRED_SCOPES env)))"
proof -
  have "urlencode ''client_id'' = ''client_id''" "urlencode ''redirect_uri'' = ''redirect_uri''"
    "urlencode ''response_type'' = ''response_type''" "urlencode ''scope'' = ''scope''"
    "urlencode ''code'' = ''code''"
    by code_simp+
  then show ?thesis
    by (simp add: buildAuthorizeUrl_def URLSearchParams_toString_def Let_def)
qed

lemma required_scope_in_joined:
  assumes "r \<in> set (required_scopes env)"
  shows "sublist r (join ''+'' (split CHR '' '' (REQUIRED_SCOPES env)))"
proof -
  from assms have "r \<in> set (split CHR '' '' (REQUIRED_SCOPES env))"
    by (simp add: required_scopes_def filter_Boolean_def)
  then show ?thesis by (rule sublist_join)
qed

lemma sublist_in_middle: "sublist r v \<Longrightarrow> sublist r (a @ v @ b)"
proof -
  assume "sublist r v"
  then obtain ps ss where "v = ps @ r @ ss" by (auto simp: sublist_def)
  then have "a @ v @ b = (a @ ps) @ r @ (ss @ b)" by simp
  then show ?thesis unfolding sublist_def by blast
qed

lemma handler_redirect:
  assumes "\<not> truthy (query_param req ''code'')"
    and "CLIENT_ID env = Some client_id" and "client_id \<noteq> []"
    and "CLIENT_SECRET env = Some client_secret" and "client_secret \<noteq> []"
    and "REDIRECT_URI env = Some redirect_uri" and "redirect_uri \<noteq> []"
  shows "handler pf env req = (writeHead_end 302 [(''Location'', buildAuthorizeUrl env)], [])"
  using assms by (simp add: handler_def Let_def of_env_def)

text \<open>
  Claim C6, evaluated where it fails. With the default scopes the builder joins the
  scopes with \<^verbatim>\<open>+\<close> and hands the result to \<^verbatim>\<open>URLSearchParams\<close>, which writes each
  \<^verbatim>\<open>+\<close> as \<^verbatim>\<open>%2B\<close>. Decoding the \<^verbatim>\<open>scope\<close> parameter of the URL gives the scopes
  with plus signs between them, not spaces (for every configuration:
  \<open>scope_parameter\<close>).
\<close>

theorem scope_parameter_plus_signs:
  "REQUIRED_SCOPES default_env = ''identify applications.commands gdm.join''
   \<and> buildAuthorizeUrl default_env =
       ''https://discord.com/oauth2/authorize?client_id=123&redirect_uri=https%3A%2F%2Fexample.com%2Fapi%2Foauth&response_type=code&scope=identify%2Bapplications.commands%2Bgdm.join''
   \<and> map_of (parse_query (query_string (buildAuthorizeUrl default_env))) ''scope'' =
       Some ''identify+applications.commands+gdm.join''"
proof -
  have u: "buildAuthorizeUrl default_env =
       ''https://discord.com/oauth2/authorize?client_id=123&redirect_uri=https%3A%2F%2Fexample.com%2Fapi%2Foauth&response_type=code&scope=identify%2Bapplications.commands%2Bgdm.join''"
    by code_simp
  have d: "map_of (parse_query (query_string (buildAuthorizeUrl default_env))) ''scope'' =
       Some ''identify+applications.commands+gdm.join''"
    by code_simp
  from REQUIRED_SCOPES_default u d show ?thesis by (intro conjI)
qed

text \<open>
  Claim C7. When the request has no \<^verbatim>\<open>code\<close> (or an empty one) and the client id,
  the client secret and the redirect URI are set and not empty, the response is a 302
  whose \<^verbatim>\<open>Location\<close> is the authorize URL, and no outbound call is made. The URL
  contains the client id and the redirect URI as the values of its parameters
  \<^verbatim>\<open>client_id\<close> and \<^verbatim>\<open>redirect_uri\<close>, and every required scope as a part of the value
  of its parameter \<^verbatim>\<open>scope\<close>; in the text of the URL each of them stands in its
  encoded form.
\<close>

theorem redirect_to_authorize:
  assumes code: "\<not> truthy (query_param req ''code'')"
    and id: "CLIENT_ID env = Some client_id" "client_id \<noteq> []"
    and secret: "CLIENT_SECRET env = Some client_secret" "client_secret \<noteq> []"
    and uri: "REDIRECT_URI env = Some redirect_uri" "redirect_uri \<noteq> []"
  shows "handler pf env req = (writeHead_end 302 [(''Location'', buildAuthorizeUrl env)], [])
       \<and> map_of (parse_query (query_string (buildAuthorizeUrl env))) ''client_id'' = Some client_id
       \<and> map_of (parse_query (query_string (buildAuthorizeUrl env))) ''redirect_uri'' = Some redirect_uri
       \<and> (\<exists>scope. map_of (parse_query (query_string (buildAuthorizeUrl env))) ''scope'' = Some scope
                  \<and> (\<forall>r \<in> set (required_scopes env). sublist r scope))
       \<and> sublist (urlencode client_id) (buildAuthorizeUrl env)
       \<and> sublist (urlencode redirect_uri) (buildAuthorizeUrl env)
       \<and> (\<forall>r \<in> set (required_scopes env). sublist (urlencode r) (buildAuthorizeUrl env))"
proof -
  let ?scope = "join ''+'' (split CHR '' '' (REQUIRED_SCOPES env))"
  have 1: "handler pf env req = (writeHead_end 302 [(''Location'', buildAuthorizeUrl env)], [])"
    using code id secret uri by (rule handler_redirect)
  have 2: "map_of (parse_query (query_string (buildAuthorizeUrl env))) ''client_id'' = Some client_id"
    by (simp add: parse_query_buildAuthorizeUrl id to_USVString_def)
  have 3: "map_of (parse_query (query_string (buildAuthorizeUrl env))) ''redirect_uri'' = Some redirect_uri"
    by (simp add: parse_query_buildAuthorizeUrl uri to_USVString_def)
  have "map_of (parse_query (query_string (buildAuthorizeUrl env))) ''scope'' = Some ?scope"
    by (simp add: parse_query_buildAuthorizeUrl)
  moreover have "\<forall>r \<in> set (required_scopes env). sublist r ?scope"
    by (simp add: required_scope_in_joined)
  ultimately have 4: "\<exists>scope. map_of (parse_query (query_string (buildAuthorizeUrl env))) ''scope'' = Some scope
                  \<and> (\<forall>r \<in> set (required_scopes env). sublist r scope)"
    by blast
  have 5: "sublist (urlencode client_id) (buildAuthorizeUrl env)"
    unfolding buildAuthorizeUrl_parts [of env] id to_USVString_def option.case
    by (rule sublist_in_middle) simp
  have "sublist (urlencode redirect_uri)
          ((''https://discord.com/oauth2/authorize?client_id='' @ urlencode client_id @ ''&redirect_uri='')
           @ urlencode redirect_uri
           @ (''&response_type=code&scope='' @ urlencode ?scope))"
    by (rule sublist_in_middle) simp
  then have 6: "sublist (urlencode redirect_uri) (buildAuthorizeUrl env)"
    by (simp add: buildAuthorizeUrl_parts [of env] id uri to_USVString_def)
  have 7: "\<forall>r \<in> set (required_scopes env). sublist (urlencode r) (buildAuthorizeUrl env)"
  proof
    fix r assume "r \<in> set (required_scopes env)"
    then have "sublist (urlencode r) (urlencode ?scope)"
      by (intro sublist_urlencode required_scope_in_joined)
    then have "sublist (urlencode r)
          ((''https://discord.com/oauth2/authorize?client_id='' @ urlencode client_id
            @ ''&redirect_uri='' @ urlencode redirect_uri @ ''&response_type=code&scope='')
           @ urlencode ?scope @ [])"
      by (rule sublist_in_middle)
    then show "sublist (urlencode r) (buildAuthorizeUrl env)"
      by (simp add: buildAuthorizeUrl_parts [of env] id uri to_USVString_def)
  qed
  from 1 2 3 4 5 6 7 show ?thesis by (intro conjI)
qed


theorem redirect_to_authorize_witness:
  "handler (provider (Failure []) (Failure [])) example_env \<lparr>query = Map.empty\<rparr> =
     (writeHead_end 302
        [(''Location'', ''https://discord.com/oauth2/authorize?client_id=123&redirect_uri=https%3A%2F%2Fexample.com%2Fapi%2Foauth&response_type=code&scope=a%2Bb%2Bc'')],
      [])
   \<and> map_of (parse_query (query_string (buildAuthorizeUrl example_env))) ''redirect_uri''
       = Some ''https://example.com/api/oauth''
   \<and> sublist (urlencode ''b'') (buildAuthorizeUrl example_env)"
proof -
  have code: "\<not> truthy (query_param \<lparr>query = Map.empty\<rparr> ''code'')"
    by (simp add: query_param_def)
  have id: "CLIENT_ID example_env = Some ''123''" "''123'' \<noteq> []"
    by (simp_all add: CLIENT_ID_def example_env_def)
  have secret: "CLIENT_SECRET example_env = Some ''s3cret''" "''s3cret'' \<noteq> []"
    by (simp_all add: CLIENT_SECRET_def example_env_def)
  have uri: "REDIRECT_URI example_env = Some ''https://example.com/api/oauth''"
    "''https://example.com/api/oauth'' \<noteq> []"
    by (simp_all add: REDIRECT_URI_def example_env_def)
  have req: "required_scopes example_env = [''a'', ''b'', ''c'']"
    by code_simp
  have url: "buildAuthorizeUrl example_env = ''https://discord.com/oauth2/authorize?client_id=123&redirect_uri=https%3A%2F%2Fexample.com%2Fapi%2Foauth&response_type=code&scope=a%2Bb%2Bc''"
    by code_simp
  from redirect_to_authorize [OF code id secret uri, of "provider (Failure []) (Failure [])"]
  have "handler (provider (Failure []) (Failure [])) example_env \<lparr>query = Map.empty\<rparr> =
          (writeHead_end 302 [(''Location'', buildAuthorizeUrl example_env)], [])"
    and "map_of (parse_query (query_string (buildAuthorizeUrl example_env))) ''redirect_uri''
           = Some ''https://example.com/api/oauth''"
    and "\<forall>r \<in> set (required_scopes example_env). sublist (urlencode r) (buildAuthorizeUrl example_env)"
    by blast+
  then show ?thesis by (simp add: req url [symmetric])
qed

text \<open>
  Claim C9. The authorize URL is a function of the client id, the redirect URI and the
  required scopes alone: two environments that agree on these three constants give the
  same URL, byte for byte, whatever else they hold. The builder has no failure mode:
  for every environment, \<^verbatim>\<open>undefined\<close> constants included, its result is a URL whose
  query has exactly the four parameters.
\<close>

theorem buildAuthorizeUrl_deterministic:
  assumes "CLIENT_ID env = CLIENT_ID env'"
    and "REDIRECT_URI env = REDIRECT_URI env'"
    and "REQUIRED_SCOPES env = REQUIRED_SCOPES env'"
  shows "buildAuthorizeUrl env = buildAuthorizeUrl env'
       \<and> parse_query (query_string (buildAuthorizeUrl env)) =
           [(''client_id'', to_USVString (CLIENT_ID env)),
            (''redirect_uri'', to_USVString (REDIRECT_URI env)),
            (''response_type'', ''code''),
            (''scope'', join ''+'' (split CHR '' '' (REQUIRED_SCOPES env)))]"
proof
  show "buildAuthorizeUrl env = buildAuthorizeUrl env'"
    using assms by (simp add: buildAuthorizeUrl_def)
  show "parse_query (query_string (buildAuthorizeUrl env)) =
           [(''client_id'', to_USVString (CLIENT_ID env)),
            (''redirect_uri'', to_USVString (REDIRECT_URI env)),
            (''response_type'', ''code''),
            (''scope'', join ''+'' (split CHR '' '' (REQUIRED_SCOPES env)))]"
    by (rule parse_query_buildAuthorizeUrl)
qed

theorem buildAuthorizeUrl_deterministic_witness:
  "buildAuthorizeUrl example_env =
     buildAuthorizeUrl (example_env(''CLIENT_SECRET'' \<mapsto> ''other'', ''REQUIRED_SCOPES'' \<mapsto> '' a b c '',
                                    ''SUCCESS_REDIRECT_URL'' \<mapsto> ''https://example.com/done''))"
proof -
  let ?env' = "example_env(''CLIENT_SECRET'' \<mapsto> ''other'', ''REQUIRED_SCOPES'' \<mapsto> '' a b c '',
                          ''SUCCESS_REDIRECT_URL'' \<mapsto> ''https://example.com/done'')"
  have 1: "CLIENT_ID example_env = CLIENT_ID ?env'"
    by (simp add: CLIENT_ID_def)
  have 2: "REDIRECT_URI example_env = REDIRECT_URI ?env'"
    by (simp add: REDIRECT_URI_def)
  have "REQUIRED_SCOPES example_env = ''a b c''" by code_simp
  moreover have "REQUIRED_SCOPES ?env' = ''a b c''" by code_simp
  ultimately have 3: "REQUIRED_SCOPES example_env = REQUIRED_SCOPES ?env'" by simp
  from buildAuthorizeUrl_deterministic [OF 1 2 3] show ?thesis by blast
qed

section \<open>How scopes are compared\<close>

lemma tokens_of_joined:
  assumes "\<forall>t \<in> set ts. t \<noteq> [] \<and> CHR '' '' \<notin> set t"
  shows "filter_Boolean (split CHR '' '' (join '' '' ts)) = ts"
  using assms
proof (induction ts rule: induct_list012)
  case 1
  show ?case by (simp add: filter_Boolean_def)
next
  case (2 t)
  then show ?case by (simp add: filter_Boolean_def split_no_sep)
next
  case (3 t t' rest)
  then have t: "t \<noteq> []" "CHR '' '' \<notin> set t" by simp_all
  have "split CHR '' '' (join '' '' (t # t' # rest)) = t # split CHR '' '' (join '' '' (t' # rest))"
    using split_append_sep [OF t(2)] by simp
  with 3 t show ?case by (simp add: filter_Boolean_def)
qed

lemma granted_scopes_of_joined:
  assumes "\<forall>t \<in> set ts. t \<noteq> [] \<and> CHR '' '' \<notin> set t"
    and "get_prop tokenData ''scope'' = Inr (JStr (join '' '' ts))"
  shows "granted_scopes tokenData = Inr ts"
proof (cases "join '' '' ts = []")
  case True
  have "filter_Boolean (split CHR '' '' (join '' '' ts)) = ts"
    using assms(1) by (rule tokens_of_joined)
  with True have "ts = []" by (simp add: filter_Boolean_def)
  with assms(2) show ?thesis
    by (simp add: granted_scopes_def or_empty_split_def filter_Boolean_def)
next
  case False
  with assms(2) tokens_of_joined [OF assms(1)] show ?thesis
    by (simp add: granted_scopes_def or_empty_split_def)
qed

lemma no_required_scopes_no_missing:
  assumes "REQUIRED_SCOPES env = []"
  shows "error_kind (fst (handler pf env req)) \<noteq> JStr ''missing_scopes''
       \<and> statusCode (fst (handler pf env req)) \<noteq> 400"
proof -
  have r: "required_scopes env = []"
    using assms by (simp add: required_scopes_def filter_Boolean_def)
  show ?thesis
  proof (cases "truthy (query_param req ''code'')")
    case False
    then show ?thesis
      by (simp add: handler_def Let_def error_kind_def json_def writeHead_end_def)
  next
    case True
    show ?thesis
    proof (cases "network pf (token_call env (query_param req ''code''))")
      case (Failure m)
      then show ?thesis
        by (simp add: handler_exchanged [OF True] exchange_failure error_kind_json statusCode_json)
    next
      case (Response st data)
      show ?thesis
      proof (cases "st = 200")
        case False
        with Response show ?thesis
          by (simp add: handler_exchanged [OF True] exchange_not_200 error_kind_json statusCode_json)
      next
        case True
        with Response have "network pf (token_call env (query_param req ''code'')) = Response 200 data"
          by simp
        then show ?thesis
          by (simp add: handler_exchanged [OF \<open>truthy (query_param req ''code'')\<close>] exchange_200 r
              missing_scopes_def error_kind_json statusCode_json split: sum.splits)
      qed
    qed
  qed
qed

text \<open>
  Claim C8, as the code has it. Both scope strings are split at the space character
  alone (\<^verbatim>\<open>split(' ')\<close>) and empty pieces are dropped: a string of scopes that have no
  space in them, joined by single spaces, is read back as exactly those scopes,
  whatever other white space they hold. A required scope is missing exactly when no
  granted scope is the same string, so the comparison is exact and case-sensitive.
  When \<^verbatim>\<open>REQUIRED_SCOPES\<close> is empty (the variable holds white space only: an unset or
  empty variable gives the default), the handler never answers with
  \<^verbatim>\<open>missing_scopes\<close>.
\<close>

theorem scope_comparison:
  assumes granted: "\<forall>t \<in> set grantedScopes. t \<noteq> [] \<and> CHR '' '' \<notin> set t"
    and required: "\<forall>t \<in> set required. t \<noteq> [] \<and> CHR '' '' \<notin> set t"
  shows "(get_prop tokenData ''scope'' = Inr (JStr (join '' '' grantedScopes)) \<longrightarrow>
            granted_scopes tokenData = Inr grantedScopes)
       \<and> (REQUIRED_SCOPES env = join '' '' required \<longrightarrow> required_scopes env = required)
       \<and> (r \<in> set (missing_scopes required grantedScopes) \<longleftrightarrow> r \<in> set required \<and> r \<notin> set grantedScopes)
       \<and> (REQUIRED_SCOPES env = [] \<longrightarrow>
            error_kind (fst (handler pf env req)) \<noteq> JStr ''missing_scopes''
            \<and> statusCode (fst (handler pf env req)) \<noteq> 400)"
proof (intro conjI impI)
  assume "get_prop tokenData ''scope'' = Inr (JStr (join '' '' grantedScopes))"
  with granted show "granted_scopes tokenData = Inr grantedScopes"
    by (rule granted_scopes_of_joined)
next
  assume "REQUIRED_SCOPES env = join '' '' required"
  then show "required_scopes env = required"
    by (simp add: required_scopes_def tokens_of_joined [OF required])
next
  show "r \<in> set (missing_scopes required grantedScopes) \<longleftrightarrow> r \<in> set required \<and> r \<notin> set grantedScopes"
    by (auto simp: missing_scopes_def)
next
  assume "REQUIRED_SCOPES env = []"
  then show "error_kind (fst (handler pf env req)) \<noteq> JStr ''missing_scopes''"
    and "statusCode (fst (handler pf env req)) \<noteq> 400"
    using no_required_scopes_no_missing by blast+
qed

theorem scope_comparison_witness:
  "granted_scopes (JObj [(''scope'', JStr ''identify  gdm.join'')]) = Inr [''identify'', ''gdm.join'']
   \<and> ''Identify'' \<in> set (missing_scopes [''Identify'', ''gdm.join''] [''identify'', ''gdm.join''])
   \<and> ''gdm.join'' \<notin> set (missing_scopes [''Identify'', ''gdm.join''] [''identify'', ''gdm.join''])
   \<and> REQUIRED_SCOPES (example_env(''REQUIRED_SCOPES'' \<mapsto> ''   '')) = []
   \<and> statusCode (fst (handler
         (provider (Response 200 (JObj [(''access_token'', JStr ''t''), (''scope'', JStr [])])) (Failure []))
         (example_env(''REQUIRED_SCOPES'' \<mapsto> ''   '')) example_request)) \<noteq> 400"
proof -
  let ?env = "example_env(''REQUIRED_SCOPES'' \<mapsto> ''   '')"
  let ?gs = "[''identify'', ''gdm.join'']"
  let ?rs = "[''Identify'', ''gdm.join'']"
  have g: "\<forall>t \<in> set ?gs. t \<noteq> [] \<and> CHR '' '' \<notin> set t" by simp
  have r: "\<forall>t \<in> set ?rs. t \<noteq> [] \<and> CHR '' '' \<notin> set t" by simp
  have 1: "granted_scopes (JObj [(''scope'', JStr ''identify  gdm.join'')]) = Inr [''identify'', ''gdm.join'']"
    by (simp add: granted_scopes_def get_prop_def or_empty_split_def filter_Boolean_def)
  have e: "REQUIRED_SCOPES ?env = []" by code_simp
  note t = scope_comparison [OF g r, of _ ?env]
  from t [of "JObj [(''scope'', JStr ''identify gdm.join'')]" "''Identify''"]
  have 2: "''Identify'' \<in> set (missing_scopes ?rs ?gs)" by simp
  from t [of "JObj [(''scope'', JStr ''identify gdm.join'')]" "''gdm.join''"]
  have 3: "''gdm.join'' \<notin> set (missing_scopes ?rs ?gs)" by simp
  from t [of "JObj [(''scope'', JStr ''identify gdm.join'')]" "''gdm.join''"
             "provider (Response 200 (JObj [(''access_token'', JStr ''t''), (''scope'', JStr [])])) (Failure [])"
             example_request] e
  have 4: "statusCode (fst (handler
         (provider (Response 200 (JObj [(''access_token'', JStr ''t''), (''scope'', JStr [])])) (Failure []))
         ?env example_request)) \<noteq> 400" by blast
  from 1 2 3 e 4 show ?thesis by (intro conjI)
qed

text \<open>
  Claim C8 as stated speaks of tokens delimited by white space. The required scopes
  are \<^verbatim>\<open>a b c\<close> and the provider grants the same three scopes separated by tabs:
  read with white space as separator all three are granted, and the handler reports
  all three as missing.
\<close>

theorem scope_comparison_counterexample:
  "whitespace_tokens [CHR ''a'', CHR 0x09, CHR ''b'', CHR 0x09, CHR ''c''] = [''a'', ''b'', ''c'']
   \<and> required_scopes example_env = [''a'', ''b'', ''c'']
   \<and> handler (provider (Response 200 (JObj [(''access_token'', JStr ''t''),
                                                (''scope'', JStr [CHR ''a'', CHR 0x09, CHR ''b'', CHR 0x09, CHR ''c''])]))
                         (Failure []))
         example_env example_request =
       (json 400 (JObj
          [(''error'', JStr ''missing_scopes''),
           (''message'', JStr ''The token does not include required scopes.''),
           (''required'', JArr [JStr ''a'', JStr ''b'', JStr ''c'']),
           (''granted'', JArr [JStr [CHR ''a'', CHR 0x09, CHR ''b'', CHR 0x09, CHR ''c'']]),
           (''missing'', JArr [JStr ''a'', JStr ''b'', JStr ''c'']),
           (''authorize_url'', JStr (buildAuthorizeUrl example_env))]),
        [token_call example_env (JStr ''abc'')])"
proof -
  let ?scope = "[CHR ''a'', CHR 0x09, CHR ''b'', CHR 0x09, CHR ''c'']"
  let ?data = "JObj [(''access_token'', JStr ''t''), (''scope'', JStr ?scope)]"
  have w: "whitespace_tokens ?scope = [''a'', ''b'', ''c'']"
    by (simp add: whitespace_tokens_def filter_Boolean_def ascii_whitespace_def)
  have req: "required_scopes example_env = [''a'', ''b'', ''c'']"
    by code_simp
  have code: "truthy (query_param example_request ''code'')"
    by (simp add: example_request_def query_param_def)
  have q: "query_param example_request ''code'' = JStr ''abc''"
    by (simp add: example_request_def query_param_def)
  have ok: "network (provider (Response 200 ?data) (Failure []))
              (token_call example_env (JStr ''abc'')) = Response 200 ?data"
    by (simp add: provider_def token_call_def)
  have granted: "granted_scopes ?data = Inr [?scope]"
    by (simp add: granted_scopes_def get_prop_def or_empty_split_def filter_Boolean_def)
  have h: "handler (provider (Response 200 ?data) (Failure [])) example_env example_request =
       (json 400 (JObj
          [(''error'', JStr ''missing_scopes''),
           (''message'', JStr ''The token does not include required scopes.''),
           (''required'', JArr [JStr ''a'', JStr ''b'', JStr ''c'']),
           (''granted'', JArr [JStr ?scope]),
           (''missing'', JArr [JStr ''a'', JStr ''b'', JStr ''c'']),
           (''authorize_url'', JStr (buildAuthorizeUrl example_env))]),
        [token_call example_env (JStr ''abc'')])"
    by (simp add: handler_exchanged [OF code] exchange_200 [OF ok] granted req missing_scopes_def q)
  from w req h show ?thesis by (intro conjI)
qed

section \<open>Requests with a code and an incomplete configuration\<close>

text \<open>
  Claim C10, as the code has it. When the \<^verbatim>\<open>code\<close> parameter is truthy (present and
  not empty), the response is never \<^verbatim>\<open>server_misconfigured\<close>: the first outbound call
  is the token call with the client id, the client secret and the redirect URI as
  they are, set or not. The outcome is then the one the exchange leads to: whenever
  the token endpoint does not answer with status 200 it is \<^verbatim>\<open>token_exchange_failed\<close>
  or \<^verbatim>\<open>unexpected_error\<close>.
\<close>

theorem code_branch_never_configuration_error:
  assumes code: "truthy (query_param req ''code'')"
    and call: "call = token_call env (query_param req ''code'')"
  shows "error_kind (fst (handler pf env req)) \<noteq> JStr ''server_misconfigured''
       \<and> (\<exists>rest. snd (handler pf env req) = call # rest)
       \<and> call = Post (API_ENDPOINT @ ''/oauth2/token'')
                    [(''grant_type'', JStr ''authorization_code''),
                     (''code'', query_param req ''code''),
                     (''redirect_uri'', of_env (REDIRECT_URI env))]
                    [(''Content-Type'', ''application/x-www-form-urlencoded'')]
                    (CLIENT_ID env) (CLIENT_SECRET env)
       \<and> ((\<forall>data. network pf call \<noteq> Response 200 data) \<longrightarrow>
            error_kind (fst (handler pf env req)) = JStr ''token_exchange_failed''
            \<or> error_kind (fst (handler pf env req)) = JStr ''unexpected_error'')"
proof -
  have c: "call = Post (API_ENDPOINT @ ''/oauth2/token'')
                    [(''grant_type'', JStr ''authorization_code''),
                     (''code'', query_param req ''code''),
                     (''redirect_uri'', of_env (REDIRECT_URI env))]
                    [(''Content-Type'', ''application/x-www-form-urlencoded'')]
                    (CLIENT_ID env) (CLIENT_SECRET env)"
    by (simp add: call token_call_def)
  have "error_kind (fst (handler pf env req)) \<noteq> JStr ''server_misconfigured''
       \<and> (\<exists>rest. snd (handler pf env req) = call # rest)
       \<and> ((\<forall>data. network pf call \<noteq> Response 200 data) \<longrightarrow>
            error_kind (fst (handler pf env req)) = JStr ''token_exchange_failed''
            \<or> error_kind (fst (handler pf env req)) = JStr ''unexpected_error'')"
  proof (cases "network pf call")
    case (Failure m)
    then show ?thesis
      unfolding call
      by (simp add: handler_exchanged [OF code] exchange_failure error_kind_json)
  next
    case (Response st data)
    show ?thesis
    proof (cases "st = 200")
      case False
      with Response show ?thesis
        unfolding call
        by (simp add: handler_exchanged [OF code] exchange_not_200 error_kind_json)
    next
      case True
      with Response have ok: "network pf (token_call env (query_param req ''code'')) = Response 200 data"
        by (simp add: call)
      then have "network pf call = Response 200 data" by (simp add: call)
      then show ?thesis
        unfolding call
        by (simp add: handler_exchanged [OF code] exchange_200 [OF ok] error_kind_json
            split: sum.splits)
    qed
  qed
  with c show ?thesis by blast
qed

theorem code_branch_never_configuration_error_witness:
  "error_kind (fst (handler (provider (Response 401 (JObj [(''error'', JStr ''invalid_client'')])) (Failure []))
                      Map.empty example_request)) = JStr ''token_exchange_failed''
   \<and> snd (handler (provider (Response 401 (JObj [(''error'', JStr ''invalid_client'')])) (Failure []))
                      Map.empty example_request) =
       [Post ''https://discord.com/api/v10/oauth2/token''
         [(''grant_type'', JStr ''authorization_code''), (''code'', JStr ''abc''), (''redirect_uri'', JUndefined)]
         [(''Content-Type'', ''application/x-www-form-urlencoded'')] None None]"
proof -
  let ?pf = "provider (Response 401 (JObj [(''error'', JStr ''invalid_client'')])) (Failure [])"
  have code: "truthy (query_param example_request ''code'')"
    by (simp add: example_request_def query_param_def)
  have call: "token_call Map.empty (JStr ''abc'') = token_call Map.empty (query_param example_request ''code'')"
    by (simp add: example_request_def query_param_def)
  have n: "\<forall>data. network ?pf (token_call Map.empty (JStr ''abc'')) \<noteq> Response 200 data"
    by (simp add: provider_def token_call_def)
  have r: "network ?pf (token_call Map.empty (query_param example_request ''code'')) =
             Response 401 (JObj [(''error'', JStr ''invalid_client'')])"
    by (simp add: provider_def token_call_def)
  have h: "handler ?pf Map.empty example_request =
             (json 500 (JObj
               [(''error'', JStr ''token_exchange_failed''),
                (''status'', JNum 401),
                (''details'', JObj [(''error'', JStr ''invalid_client'')]),
                (''authorize_url'', JStr (buildAuthorizeUrl Map.empty))]),
              [token_call Map.empty (query_param example_request ''code'')])"
    by (simp add: handler_exchanged [OF code] exchange_not_200 [OF r])
  have e: "error_kind (fst (handler ?pf Map.empty example_request)) \<noteq> JStr ''unexpected_error''"
    by (simp add: h error_kind_json)
  have s: "snd (handler ?pf Map.empty example_request) = [token_call Map.empty (JStr ''abc'')]"
    by (simp add: h call)
  have p: "token_call Map.empty (JStr ''abc'') =
      Post ''https://discord.com/api/v10/oauth2/token''
         [(''grant_type'', JStr ''authorization_code''), (''code'', JStr ''abc''), (''redirect_uri'', JUndefined)]
         [(''Content-Type'', ''application/x-www-form-urlencoded'')] None None"
    by (simp add: token_call_def API_ENDPOINT_def REDIRECT_URI_def CLIENT_ID_def CLIENT_SECRET_def of_env_def)
  from code_branch_never_configuration_error [OF code call, of ?pf] n
  have "error_kind (fst (handler ?pf Map.empty example_request)) = JStr ''token_exchange_failed''
      \<or> error_kind (fst (handler ?pf Map.empty example_request)) = JStr ''unexpected_error''"
    by blast
  with e have "error_kind (fst (handler ?pf Map.empty example_request)) = JStr ''token_exchange_failed''"
    by blast
  with s p show ?thesis by simp
qed

text \<open>
  Claim C10 as stated fails twice. A \<^verbatim>\<open>code\<close> parameter that is present and empty
  (\<^verbatim>\<open>?code=\<close>) is falsy, and with nothing configured the response is
  \<^verbatim>\<open>server_misconfigured\<close>. And when the token endpoint answers 200 although nothing
  is configured, the flow goes on and the response is the 200 success body.
\<close>

theorem code_branch_counterexample:
  "handler (provider (Response 200 JNull) (Failure [])) Map.empty \<lparr>query = [''code'' \<mapsto> JStr []]\<rparr> =
     (json 500 (JObj
        [(''error'', JStr ''server_misconfigured''),
         (''message'', JStr ''CLIENT_ID, CLIENT_SECRET and REDIRECT_URI must be set in environment variables.'')]),
      [])
   \<and> handler (provider (Response 200 (JObj [(''access_token'', JStr ''t''),
                                                (''scope'', JStr ''identify applications.commands gdm.join'')]))
                         (Failure []))
         Map.empty example_request =
     (json 200 (JObj
        [(''ok'', JBool True),
         (''token'', JObj [(''access_token'', JStr ''t''),
                          (''scope'', JStr ''identify applications.commands gdm.join'')]),
         (''user'', JNull)]),
      [Post ''https://discord.com/api/v10/oauth2/token''
         [(''grant_type'', JStr ''authorization_code''), (''code'', JStr ''abc''), (''redirect_uri'', JUndefined)]
         [(''Content-Type'', ''application/x-www-form-urlencoded'')] None None,
       Get ''https://discord.com/api/v10/users/@me'' (JStr ''t'')])"
proof -
  have 1: "handler (provider (Response 200 JNull) (Failure [])) Map.empty \<lparr>query = [''code'' \<mapsto> JStr []]\<rparr> =
     (json 500 (JObj
        [(''error'', JStr ''server_misconfigured''),
         (''message'', JStr ''CLIENT_ID, CLIENT_SECRET and REDIRECT_URI must be set in environment variables.'')]),
      [])"
    by (simp add: handler_def query_param_def CLIENT_ID_def of_env_def)
  let ?data = "JObj [(''access_token'', JStr ''t''), (''scope'', JStr ''identify applications.commands gdm.join'')]"
  have code: "truthy (query_param example_request ''code'')"
    by (simp add: example_request_def query_param_def)
  have q: "query_param example_request ''code'' = JStr ''abc''"
    by (simp add: example_request_def query_param_def)
  have ok: "network (provider (Response 200 ?data) (Failure []))
              (token_call Map.empty (JStr ''abc'')) = Response 200 ?data"
    by (simp add: provider_def token_call_def)
  have granted: "granted_scopes ?data = Inr [''identify'', ''applications.commands'', ''gdm.join'']"
    by (simp add: granted_scopes_def get_prop_def or_empty_split_def filter_Boolean_def)
  have req: "required_scopes Map.empty = [''identify'', ''applications.commands'', ''gdm.join'']"
    by code_simp
  have user: "fetch_user (provider (Response 200 ?data) (Failure [])) ?data =
                (JNull, [Get ''https://discord.com/api/v10/users/@me'' (JStr ''t'')])"
    by (simp add: fetch_user_def get_prop_def provider_def API_ENDPOINT_def)
  have call: "token_call Map.empty (JStr ''abc'') =
      Post ''https://discord.com/api/v10/oauth2/token''
         [(''grant_type'', JStr ''authorization_code''), (''code'', JStr ''abc''), (''redirect_uri'', JUndefined)]
         [(''Content-Type'', ''application/x-www-form-urlencoded'')] None None"
    by (simp add: token_call_def API_ENDPOINT_def REDIRECT_URI_def CLIENT_ID_def CLIENT_SECRET_def of_env_def)
  have 2: "handler (provider (Response 200 ?data) (Failure [])) Map.empty example_request =
     (json 200 (JObj [(''ok'', JBool True), (''token'', ?data), (''user'', JNull)]),
      [Post ''https://discord.com/api/v10/oauth2/token''
         [(''grant_type'', JStr ''authorization_code''), (''code'', JStr ''abc''), (''redirect_uri'', JUndefined)]
         [(''Content-Type'', ''application/x-www-form-urlencoded'')] None None,
       Get ''https://discord.com/api/v10/users/@me'' (JStr ''t'')])"
    by (simp add: handler_exchanged [OF code] q exchange_200 [OF ok] granted req missing_scopes_def
        user call)
  from 1 2 show ?thesis by (intro conjI)
qed

section \<open>The same paths in the other two files\<close>

text \<open>
  The HTML variant computes the missing scopes in the same way and lists them, and
  only them, on its 400 page. Its other outcomes are fixed pages: a failed exchange
  and a configuration error are 500 pages, and success is a 200 page that does not
  depend on the lookup of the user.
\<close>

lemma handler_part_000_missing_scopes:
  assumes "truthy (query_param req ''code'')"
    and "network pf (token_call env (query_param req ''code'')) = Response 200 tokenData"
    and "granted_scopes tokenData = Inr grantedScopes"
    and "missing = filter (\<lambda>r. r \<notin> set grantedScopes) (required_scopes env)"
    and "missing \<noteq> []"
  shows "handler_part_000 pf env req =
           (send 400 (MissingPermissionsPage
              (join [] (map (\<lambda>scope. ''<li>'' @ scope @ ''</li>'') missing))
              (buildAuthorizeUrl env)),
            [token_call env (query_param req ''code'')])"
  using assms
  by (simp add: handler_part_000_def exchange_part_000_def Let_def missing_scopes_def)

lemma handler_part_000_exchange_failed:
  assumes "truthy (query_param req ''code'')"
    and "network pf (token_call env (query_param req ''code'')) = Response st data"
    and "st \<noteq> 200"
  shows "handler_part_000 pf env req =
           (send 500 (AuthorizationFailedPage (buildAuthorizeUrl env)),
            [token_call env (query_param req ''code'')])"
  using assms by (simp add: handler_part_000_def exchange_part_000_def Let_def)

lemma handler_part_000_success:
  assumes "truthy (query_param req ''code'')"
    and "network pf (token_call env (query_param req ''code'')) = Response 200 tokenData"
    and "granted_scopes tokenData = Inr grantedScopes"
    and "set (required_scopes env) \<subseteq> set grantedScopes"
  shows "handler_part_000 pf env req =
           (send 200 (AuthorizationSuccessfulPage (SUCCESS_REDIRECT_URL env)),
            token_call env (query_param req ''code'') # snd (fetch_user pf tokenData))"
proof -
  have "missing_scopes (required_scopes env) grantedScopes = []"
    using assms(4) by (auto simp: missing_scopes_def filter_empty_conv)
  with assms(1-3) show ?thesis
    by (simp add: handler_part_000_def exchange_part_000_def Let_def case_prod_unfold)
qed

lemma handler_part_000_redirect:
  assumes "\<not> truthy (query_param req ''code'')"
    and "CLIENT_ID env = Some client_id" and "client_id \<noteq> []"
    and "CLIENT_SECRET env = Some client_secret" and "client_secret \<noteq> []"
    and "REDIRECT_URI env = Some redirect_uri" and "redirect_uri \<noteq> []"
  shows "handler_part_000 pf env req = (writeHead_end 302 [(''Location'', buildAuthorizeUrl env)], [])"
  using assms by (simp add: handler_part_000_def Let_def of_env_def)

lemma handler_part_000_configuration_error:
  assumes "\<not> truthy (query_param req ''code'')"
    and "CLIENT_ID env = None \<or> CLIENT_ID env = Some []
       \<or> CLIENT_SECRET env = None \<or> CLIENT_SECRET env = Some []
       \<or> REDIRECT_URI env = None \<or> REDIRECT_URI env = Some []"
  shows "handler_part_000 pf env req = (send 500 ConfigurationErrorPage, [])"
  using assms by (auto simp: handler_part_000_def Let_def of_env_def)

text \<open>
  The plain exchange has no configuration check and no redirect: without a code it
  answers 400, and a rejected token call, for a status outside 200 to 299 or for a
  failure of the transport, gets the same fixed 500 body.
\<close>

lemma handler_part_001_no_code:
  assumes "\<not> truthy (query_param req ''code'')"
  shows "handler_part_001 pf env req = (json 400 (JObj [(''error'', JStr ''Missing code'')]), [])"
  using assms by (simp add: handler_part_001_def)

lemma handler_part_001_rejected:
  assumes "truthy (query_param req ''code'')"
    and "network pf (token_call env (query_param req ''code'')) = Failure m
       \<or> (network pf (token_call env (query_param req ''code'')) = Response st data
           \<and> (st < 200 \<or> 300 \<le> st))"
  shows "handler_part_001 pf env req =
           (json 500 (JObj [(''error'', JStr ''Error exchanging code for token'')]),
            [token_call env (query_param req ''code'')])"
  using assms by (auto simp: handler_part_001_def Let_def)

lemma handler_part_001_success:
  assumes "truthy (query_param req ''code'')"
    and "network pf (token_call env (query_param req ''code'')) = Response st data"
    and "200 \<le> st" and "st < 300"
  shows "handler_part_001 pf env req = (json 200 data, [token_call env (query_param req ''code'')])"
  using assms by (simp add: handler_part_001_def Let_def)

end
